theory Spec2Isabelle
  imports Main "HOL-Library.Word" "HOL-Library.AList"
begin

section \<open>The PLY codec of plytorch (main.cpp)\<close>

text \<open>
  The codec converts binary PLY files into dictionaries of tensors and back. Its four
  entry points are \<open>read_ply\<close>, \<open>write_ply\<close>, \<open>read_float_ply\<close> and
  \<open>write_float_ply\<close>. Every one of them throws \<open>std::runtime_error\<close> with a message;
  the model returns the exception as a value. Bytes are \<open>char\<close>, as in the C++ code, and
  a file is the list of its bytes.
\<close>

subsection \<open>Exceptions\<close>

text \<open>
  \<open>runtime_error\<close> carries the message of the \<open>std::runtime_error\<close> thrown by the code,
  \<open>c10_error\<close> is the exception the tensor library throws itself (a dimension index out of
  range), and \<open>undefined_behaviour\<close> marks an execution that reads outside an array or a
  buffer, where C++ promises nothing.
\<close>

datatype exn = runtime_error string | c10_error string | undefined_behaviour string

subsection \<open>Scalar types\<close>

text \<open>
  \<open>miniply::PLYPropertyType\<close>: the scalar types of the file format, and \<open>None\<close> for
  "not a list" in \<open>countType\<close>.
\<close>

datatype PLYPropertyType =
  PLY_Char | PLY_UChar | PLY_Short | PLY_UShort | PLY_Int | PLY_UInt | PLY_Float | PLY_Double
  | PLY_None

text \<open>
  \<open>torch::ScalarType\<close>. The library has more members than the eight the codec handles;
  \<open>kInt64\<close>, \<open>kFloat16\<close> and \<open>kBool\<close> stand for those here. The code also uses the
  aliases \<open>kByte\<close>, \<open>kFloat\<close> and \<open>kDouble\<close>.
\<close>

datatype ScalarType =
  kUInt8 | kInt8 | kInt16 | kInt32 | kInt64 | kFloat16 | kFloat32 | kFloat64 | kBool
  | kUInt16 | kUInt32

abbreviation kByte :: ScalarType where "kByte \<equiv> kUInt8"
abbreviation kFloat :: ScalarType where "kFloat \<equiv> kFloat32"
abbreviation kDouble :: ScalarType where "kDouble \<equiv> kFloat64"

text \<open>The name \<open>toString\<close> prints in the error messages (the library's own table).\<close>

fun toString :: "ScalarType \<Rightarrow> string" where
  "toString kUInt8 = ''Byte''"
| "toString kInt8 = ''Char''"
| "toString kInt16 = ''Short''"
| "toString kInt32 = ''Int''"
| "toString kInt64 = ''Long''"
| "toString kFloat16 = ''Half''"
| "toString kFloat32 = ''Float''"
| "toString kFloat64 = ''Double''"
| "toString kBool = ''Bool''"
| "toString kUInt16 = ''UInt16''"
| "toString kUInt32 = ''UInt32''"

subsection \<open>The three lookup tables\<close>

text \<open>
  A \<open>const std::unordered_map\<close> that is only searched with \<open>find\<close> is an association
  list; \<open>find\<close> is \<open>map_of\<close>, and \<open>end()\<close> is \<open>None\<close>.
\<close>

definition ply_to_torch_dtype :: "(PLYPropertyType \<times> ScalarType) list" where
  "ply_to_torch_dtype =
    [(PLY_Char, kByte), (PLY_UChar, kByte), (PLY_Short, kInt16), (PLY_UShort, kUInt16),
     (PLY_Int, kInt32), (PLY_UInt, kUInt32), (PLY_Float, kFloat), (PLY_Double, kDouble)]"

definition torch_dtype_to_ply :: "(ScalarType \<times> string) list" where
  "torch_dtype_to_ply =
    [(kUInt8, ''uchar''), (kInt8, ''char''), (kUInt16, ''ushort''), (kInt16, ''short''),
     (kUInt32, ''uint''), (kInt32, ''int''), (kFloat32, ''float''), (kFloat64, ''double'')]"

definition torch_dtype_to_size :: "(ScalarType \<times> 32 word) list" where
  "torch_dtype_to_size =
    [(kUInt8, 1), (kInt8, 1), (kUInt16, 2), (kInt16, 2),
     (kUInt32, 4), (kInt32, 4), (kFloat32, 4), (kFloat64, 8)]"

definition get_torch_dtype :: "PLYPropertyType \<Rightarrow> exn + ScalarType" where
  "get_torch_dtype type =
    (case map_of ply_to_torch_dtype type of
       Some result \<Rightarrow> Inr result
     | None \<Rightarrow> Inl (runtime_error ''unknown PLYProperty dtype''))"

definition get_ply_dtype :: "ScalarType \<Rightarrow> exn + string" where
  "get_ply_dtype t =
    (case map_of torch_dtype_to_ply t of
       Some result \<Rightarrow> Inr result
     | None \<Rightarrow> Inl (runtime_error
         (''cannot convert torch dtype '' @ [CHR 0x27] @ toString t @ [CHR 0x27] @ '' into PLY type'')))"

definition get_torch_dtype_size :: "ScalarType \<Rightarrow> exn + 32 word" where
  "get_torch_dtype_size t =
    (case map_of torch_dtype_to_size t of
       Some result \<Rightarrow> Inr result
     | None \<Rightarrow> Inl (runtime_error
         (''cannot convert torch dtype '' @ [CHR 0x27] @ toString t @ [CHR 0x27] @ '' into PLY type'')))"

subsection \<open>Printing numbers\<close>

text \<open>
  \<open>std::to_string\<close> and \<open>operator<<\<close> print an unsigned number in decimal, without
  leading zeros.
\<close>

definition digit_char :: "nat \<Rightarrow> char" where
  "digit_char d = ''0123456789'' ! d"

fun to_string :: "nat \<Rightarrow> string" where
  "to_string n = (if n < 10 then [digit_char n] else to_string (n div 10) @ [digit_char (n mod 10)])"

declare to_string.simps [simp del]

subsection \<open>Tensors\<close>

datatype Device = kCPU | kCUDA

text \<open>
  What the codec reads of a \<open>torch::Tensor\<close>: its shape, its scalar type, its device and
  the bytes at \<open>data_ptr()\<close>.
\<close>

record Tensor =
  sizes :: "nat list"
  scalar_type :: ScalarType
  device :: Device
  data_ptr :: string

definition ndimension :: "Tensor \<Rightarrow> nat" where
  "ndimension t = length (sizes t)"

text \<open>\<open>size(d)\<close> throws when the tensor has no dimension \<open>d\<close>.\<close>

definition size_at :: "Tensor \<Rightarrow> nat \<Rightarrow> exn + nat" where
  "size_at t d =
    (if d < ndimension t then Inr (sizes t ! d)
     else Inl (c10_error ''Dimension out of range''))"

text \<open>
  Reading \<open>n\<close> bytes at offset \<open>off\<close> of a buffer; \<open>None\<close> when the span leaves the
  buffer.
\<close>

definition read_bytes :: "string \<Rightarrow> nat \<Rightarrow> nat \<Rightarrow> string option" where
  "read_bytes mem off n = (if off + n \<le> length mem then Some (take n (drop off mem)) else None)"

subsection \<open>Unordered maps\<close>

text \<open>
  A \<open>std::unordered_map\<close> is the list of its entries in iteration order, with distinct
  keys. The standard leaves the iteration order to the implementation; a \<open>placement\<close>
  says at which position of the iteration order the implementation puts a new key, given
  the keys already there. \<open>um_assign\<close> is \<open>m[k] = v\<close>: an existing key keeps its
  position.
\<close>

type_synonym ('k, 'v) unordered_map = "('k \<times> 'v) list"
type_synonym placement = "string list \<Rightarrow> string \<Rightarrow> nat"

definition um_assign :: "('k list \<Rightarrow> 'k \<Rightarrow> nat) \<Rightarrow> 'k \<Rightarrow> 'v \<Rightarrow> ('k, 'v) unordered_map \<Rightarrow> ('k, 'v) unordered_map" where
  "um_assign place k v m =
    (if k \<in> fst ` set m then AList.update k v m
     else (let i = min (place (map fst m) k) (length m) in take i m @ (k, v) # drop i m))"


definition place_back :: "'k list \<Rightarrow> 'k \<Rightarrow> nat" where
  "place_back ks k = length ks"

type_synonym PropertiesType = "(string, Tensor) unordered_map"
type_synonym ElementsType = "(string, PropertiesType) unordered_map"

subsection \<open>Files\<close>

text \<open>
  The file system maps a path to the bytes of the file there; \<open>creatable\<close> says whether
  an output stream can be opened on a path. Opening an \<open>std::ofstream\<close> creates the file
  or truncates it; when it cannot, the stream is not open, and every later write to it
  does nothing.
\<close>

record filesystem =
  files :: "string \<Rightarrow> string option"
  creatable :: "string \<Rightarrow> bool"

definition ofstream_open :: "filesystem \<Rightarrow> string \<Rightarrow> filesystem option" where
  "ofstream_open fs path =
    (if creatable fs path then Some (fs\<lparr>files := (files fs)(path \<mapsto> [])\<rparr>) else None)"

text \<open>The file system once \<open>text\<close> has gone through a stream opened on \<open>path\<close>.\<close>

definition ofstream_written :: "filesystem \<Rightarrow> string \<Rightarrow> string \<Rightarrow> filesystem" where
  "ofstream_written fs path text =
    (case ofstream_open fs path of
       None \<Rightarrow> fs
     | Some fs1 \<Rightarrow> fs1\<lparr>files := (files fs1)(path \<mapsto> text)\<rparr>)"

subsection \<open>The host\<close>

text \<open>
  Two properties of the machine the code runs on: its byte order and whether plain
  \<open>char\<close> is signed. \<open>is_big_endian\<close> stores \<open>0x01020304\<close> in a union with four
  chars and looks at the first one.
\<close>

record host =
  big_endian :: bool
  char_signed :: bool

definition uint32_bytes :: "host \<Rightarrow> 32 word \<Rightarrow> 8 word list" where
  "uint32_bytes h w =
    (let le = [ucast w, ucast (drop_bit 8 w), ucast (drop_bit 16 w), ucast (drop_bit 24 w)]
     in if big_endian h then rev le else le)"

definition is_big_endian :: "host \<Rightarrow> bool" where
  "is_big_endian h = (let c = uint32_bytes h 0x01020304 in c ! 0 = 1)"

subsection \<open>The dense float writer\<close>

text \<open>
  \<open>write_float_ply\<close>. The result is the exception or success, and the file system the
  call leaves. \<open>std::endl\<close> is a newline.
\<close>

definition float_header :: "nat \<Rightarrow> string list \<Rightarrow> string" where
  "float_header n props =
    ''ply'' @ ''\<newline>'' @ ''format binary_little_endian 1.0'' @ ''\<newline>''
    @ ''element vertex '' @ to_string n @ ''\<newline>''
    @ concat (map (\<lambda>prop. ''property float '' @ prop @ ''\<newline>'') props)
    @ ''end_header'' @ ''\<newline>''"

definition write_float_ply :: "filesystem \<Rightarrow> string \<Rightarrow> Tensor \<Rightarrow> string list \<Rightarrow> (exn + unit) \<times> filesystem" where
  "write_float_ply fs path data props =
    (case ofstream_open fs path of
       None \<Rightarrow> (Inl (runtime_error (''Could not create file: '' @ path)), fs)
     | Some fs1 \<Rightarrow>
        if ndimension data \<noteq> 2 then
          (Inl (runtime_error ''Data tensor must be 2-dimensional''), fs1)
        else if sizes data ! 1 \<noteq> length props then
          (Inl (runtime_error ''tensor.size(1) != len(props)''), fs1)
        else if device data \<noteq> kCPU then
          (Inl (runtime_error ''data must be on CPU''), fs1)
        else if scalar_type data \<noteq> kFloat32 then
          (Inl (runtime_error ''data dtype must be float32''), fs1)
        else
          (let header = float_header (sizes data ! 0) props;
               data_size = 4 * (sizes data ! 0) * (sizes data ! 1)
           in case read_bytes (data_ptr data) 0 data_size of
                None \<Rightarrow>
                  (Inl (undefined_behaviour ''read past the end of the tensor''),
                   ofstream_written fs path header)
              | Some bytes \<Rightarrow> (Inr (), ofstream_written fs path (header @ bytes))))"

subsection \<open>The generic writer\<close>

text \<open>
  What a piece of \<open>write_ply\<close> does to the stream is the text it appends and the
  exception it ends with, if any. \<open>for_each\<close> is a range-based \<open>for\<close> loop whose body
  writes to the stream and may throw.
\<close>

fun for_each :: "('a \<Rightarrow> string \<times> exn option) \<Rightarrow> 'a list \<Rightarrow> string \<times> exn option" where
  "for_each body [] = ([], None)"
| "for_each body (x # xs) =
    (case body x of
       (s, Some e) \<Rightarrow> (s, Some e)
     | (s, None) \<Rightarrow> (case for_each body xs of (s', r) \<Rightarrow> (s @ s', r)))"

text \<open>The header line of one property (the body of the inner header loop).\<close>

definition write_property_line :: "string \<times> Tensor \<Rightarrow> string \<times> exn option" where
  "write_property_line = (\<lambda>(property_name, data).
    (let kw = (if ndimension data > 1 \<and> sizes data ! 1 > 1
               then ''property list uchar '' else ''property '')
     in case get_ply_dtype (scalar_type data) of
          Inl e \<Rightarrow> (kw, Some e)
        | Inr ty \<Rightarrow> (kw @ ty @ '' '' @ property_name @ ''\<newline>'', None)))"

text \<open>
  The header lines of one element (the body of the outer header loop). The row count is
  \<open>element.begin()->second.size(0)\<close>: there is no first property in an empty element,
  and \<open>size(0)\<close> throws on a tensor without dimensions.
\<close>

definition write_element_header :: "string \<times> PropertiesType \<Rightarrow> string \<times> exn option" where
  "write_element_header = (\<lambda>(element_name, element).
    (case element of
       [] \<Rightarrow> (''element '' @ element_name @ '' '',
              Some (undefined_behaviour ''begin() of an empty map''))
     | (first_name, first) # others \<Rightarrow>
        (case size_at first 0 of
           Inl e \<Rightarrow> (''element '' @ element_name @ '' '', Some e)
         | Inr n \<Rightarrow>
            (case for_each write_property_line element of
               (s, r) \<Rightarrow> (''element '' @ element_name @ '' '' @ to_string n @ ''\<newline>'' @ s, r)))))"

text \<open>
  The four arrays of the payload loop, indexed by the position of the property in the
  iteration order. A source pointer is the offset of the cursor in the buffer of its
  tensor. \<open>is_list\<close> and \<open>list_sizes\<close> are vectors of \<open>char\<close>.
\<close>

record columns =
  src_ptrs :: "nat list"
  strides :: "32 word list"
  is_list :: "char list"
  list_sizes :: "char list"

fun fill_columns :: "(string \<times> Tensor) list \<Rightarrow> nat \<Rightarrow> columns \<Rightarrow> exn + columns" where
  "fill_columns [] i c = Inr c"
| "fill_columns ((property_name, data) # rest) i c =
    (case get_torch_dtype_size (scalar_type data) of
       Inl e \<Rightarrow> Inl e
     | Inr sz \<Rightarrow>
        (let isl = (if ndimension data > 1 \<and> sizes data ! 1 > 1 then CHR 0x01 else CHR 0x00);
             c1 = c\<lparr>src_ptrs := (src_ptrs c)[i := 0], strides := (strides c)[i := sz],
                    is_list := (is_list c)[i := isl]\<rparr>;
             c2 = (if isl \<noteq> CHR 0x00
                   then c1\<lparr>list_sizes := (list_sizes c1)[i := char_of (sizes data ! 1)]\<rparr> else c1)
         in fill_columns rest (Suc i) c2))"

text \<open>
  In \<open>cur_stride * list_sizes[prop_idx]\<close> the \<open>char\<close> is promoted to \<open>int\<close> and then
  converted to \<open>uint32_t\<close>; the product wraps at 32 bits.
\<close>

definition char_to_uint32 :: "host \<Rightarrow> char \<Rightarrow> 32 word" where
  "char_to_uint32 h c =
    (let v = (of_char c :: nat)
     in if char_signed h \<and> 128 \<le> v then of_nat v - 256 else of_nat v)"

text \<open>
  The body of the property loop for the column \<open>prop_idx\<close>: the bytes written and the
  cursor afterwards.
\<close>

definition write_cell :: "host \<Rightarrow> string list \<Rightarrow> columns \<Rightarrow> nat \<Rightarrow> string \<times> (exn + columns)" where
  "write_cell h bufs c prop_idx =
    (let cur_stride = strides c ! prop_idx in
     if is_list c ! prop_idx = CHR 0x00 then
       (case read_bytes (bufs ! prop_idx) (src_ptrs c ! prop_idx) (unat cur_stride) of
          None \<Rightarrow> ([], Inl (undefined_behaviour ''read past the end of the tensor''))
        | Some bytes \<Rightarrow>
            (bytes, Inr (c\<lparr>src_ptrs := (src_ptrs c)[prop_idx := src_ptrs c ! prop_idx + unat cur_stride]\<rparr>)))
     else
       (let n = unat (cur_stride * char_to_uint32 h (list_sizes c ! prop_idx)) in
        case read_bytes (bufs ! prop_idx) (src_ptrs c ! prop_idx) n of
          None \<Rightarrow> ([list_sizes c ! prop_idx], Inl (undefined_behaviour ''read past the end of the tensor''))
        | Some bytes \<Rightarrow>
            (list_sizes c ! prop_idx # bytes,
             Inr (c\<lparr>src_ptrs := (src_ptrs c)[prop_idx := src_ptrs c ! prop_idx + n]\<rparr>))))"

text \<open>
  The property loop, \<open>for (prop_idx = 0; prop_idx != element.size(); ++prop_idx)\<close>, from
  \<open>prop_idx\<close> on. The index counts up from 0, so \<open>!=\<close> is \<open><\<close>.
\<close>

function write_row :: "host \<Rightarrow> string list \<Rightarrow> nat \<Rightarrow> columns \<Rightarrow> nat \<Rightarrow> string \<times> (exn + columns)" where
  "write_row h bufs n c prop_idx =
    (if prop_idx < n then
       (case write_cell h bufs c prop_idx of
          (s, Inl e) \<Rightarrow> (s, Inl e)
        | (s, Inr c') \<Rightarrow> (case write_row h bufs n c' (Suc prop_idx) of (s', r) \<Rightarrow> (s @ s', r)))
     else ([], Inr c))"
  by pat_completeness auto
termination
  by (relation "measure (\<lambda>(h, bufs, n, c, prop_idx). n - prop_idx)") auto

declare write_row.simps [simp del]

text \<open>The row loop, with the number of rows still to write.\<close>

fun write_rows :: "host \<Rightarrow> string list \<Rightarrow> nat \<Rightarrow> columns \<Rightarrow> nat \<Rightarrow> string \<times> (exn + columns)" where
  "write_rows h bufs n c 0 = ([], Inr c)"
| "write_rows h bufs n c (Suc rows) =
    (case write_row h bufs n c 0 of
       (s, Inl e) \<Rightarrow> (s, Inl e)
     | (s, Inr c') \<Rightarrow> (case write_rows h bufs n c' rows of (s', r) \<Rightarrow> (s @ s', r)))"

text \<open>
  The payload of one element (the body of the second loop over the elements).
  \<open>num_rows\<close> is a \<open>uint32_t\<close>.
\<close>

definition write_element_payload :: "host \<Rightarrow> string \<times> PropertiesType \<Rightarrow> string \<times> exn option" where
  "write_element_payload h = (\<lambda>(element_name, element).
    (let n = length element;
         c0 = \<lparr>src_ptrs = replicate n 0, strides = replicate n 0,
               is_list = replicate n (CHR 0x00), list_sizes = replicate n (CHR 0x00)\<rparr>
     in case element of
          [] \<Rightarrow> ([], Some (undefined_behaviour ''begin() of an empty map''))
        | (first_name, first) # others \<Rightarrow>
           (case size_at first 0 of
              Inl e \<Rightarrow> ([], Some e)
            | Inr size0 \<Rightarrow>
               (let num_rows = size0 mod 2 ^ 32 in
                case fill_columns element 0 c0 of
                  Inl e \<Rightarrow> ([], Some e)
                | Inr c \<Rightarrow>
                   (case write_rows h (map (\<lambda>(property_name, data). data_ptr data) element) n c num_rows of
                      (s, Inl e) \<Rightarrow> (s, Some e)
                    | (s, Inr c') \<Rightarrow> (s, None))))))"

text \<open>Everything \<open>write_ply\<close> sends to the stream, and the exception that ends it.\<close>

definition write_ply_stream :: "host \<Rightarrow> ElementsType \<Rightarrow> string \<times> exn option" where
  "write_ply_stream h elements =
    (let format = (if is_big_endian h then ''format binary_big_endian 1.0'' @ ''\<newline>''
                   else ''format binary_little_endian 1.0'' @ ''\<newline>'')
     in case for_each write_element_header elements of
          (s1, Some e) \<Rightarrow> (''ply'' @ ''\<newline>'' @ format @ s1, Some e)
        | (s1, None) \<Rightarrow>
           (case for_each (write_element_payload h) elements of
              (s2, r) \<Rightarrow> (''ply'' @ ''\<newline>'' @ format @ s1 @ ''end_header'' @ ''\<newline>'' @ s2, r)))"

text \<open>
  \<open>write_ply\<close> never looks at the state of the stream: when the file cannot be opened
  the writes are lost and the function still returns \<open>true\<close>.
\<close>

definition write_ply :: "host \<Rightarrow> filesystem \<Rightarrow> string \<Rightarrow> ElementsType \<Rightarrow> (exn + bool) \<times> filesystem" where
  "write_ply h fs path elements =
    (case write_ply_stream h elements of
       (text, Some e) \<Rightarrow> (Inl e, ofstream_written fs path text)
     | (text, None) \<Rightarrow> (Inr True, ofstream_written fs path text))"

subsection \<open>The reader's collaborator\<close>

text \<open>
  Modelled from the spec: the interface of the PLY reader (\<open>miniply.h\<close>, which is not
  in main.cpp), as far as main.cpp uses it. The reader parses the header when it is
  constructed and is \<open>valid\<close> when that succeeded. An element has a name, a row count
  \<open>N\<close> and its property declarations in file order. A property has a name, the type
  of its values, the type of its list counts (\<open>None\<close> for a scalar property) and, for a
  list property, the list length of every row as observed in the file. \<open>prop_values\<close>
  are the bytes that \<open>extract_properties\<close> and \<open>extract_list_property\<close> copy to their
  destination once the element is loaded: the \<open>N\<close> values of a scalar column, the
  flattened items of a list column.
\<close>

datatype PLYFileType = ASCII | Binary | BinaryBigEndian

record PLYProperty =
  prop_name :: string
  prop_type :: PLYPropertyType
  countType :: PLYPropertyType
  rowCount :: "32 word list"
  prop_values :: string

record PLYElement =
  elem_name :: string
  count :: "32 word"
  properties :: "PLYProperty list"

record PLYReader =
  valid :: bool
  file_type :: PLYFileType
  m_elements :: "PLYElement list"

definition num_elements :: "PLYReader \<Rightarrow> nat" where
  "num_elements reader = length (m_elements reader)"

subsection \<open>The generic reader\<close>

definition varying_rowcount :: "string \<Rightarrow> 32 word \<Rightarrow> 32 word \<Rightarrow> string" where
  "varying_rowcount name lo hi =
    ''list property '' @ [CHR 0x27] @ name @ [CHR 0x27] @ '' has varying rowcount(from ''
    @ to_string (unat lo) @ '' to '' @ to_string (unat hi) @ ''), which is not supported!''"

text \<open>
  The body of the property loop of \<open>read_ply_element\<close>: the tensor made for one
  property. \<open>rowcounts[0]\<close> of an empty vector is outside the vector.
\<close>

definition read_property :: "32 word \<Rightarrow> PLYProperty \<Rightarrow> exn + Tensor" where
  "read_property N property =
    (if countType property \<noteq> PLY_None then
       (case get_torch_dtype (prop_type property) of
          Inl e \<Rightarrow> Inl e
        | Inr prop_dtype \<Rightarrow>
           (let rowcounts = remdups_adj (sort (rowCount property)) in
            if length rowcounts \<noteq> 1 then
              (if rowcounts = [] then Inl (undefined_behaviour ''rowcounts[0] of an empty vector'')
               else Inl (runtime_error
                 (varying_rowcount (prop_name property) (rowcounts ! 0) (rowcounts ! (length rowcounts - 1)))))
            else
              Inr \<lparr>sizes = [unat N, unat (rowcounts ! 0)], scalar_type = prop_dtype,
                   device = kCPU, data_ptr = prop_values property\<rparr>))
     else
       (case get_torch_dtype (prop_type property) of
          Inl e \<Rightarrow> Inl e
        | Inr prop_dtype \<Rightarrow>
            Inr \<lparr>sizes = [unat N], scalar_type = prop_dtype,
                 device = kCPU, data_ptr = prop_values property\<rparr>))"

fun read_properties :: "placement \<Rightarrow> 32 word \<Rightarrow> PLYProperty list \<Rightarrow> PropertiesType \<Rightarrow> exn + PropertiesType" where
  "read_properties place N [] props_dict = Inr props_dict"
| "read_properties place N (property # rest) props_dict =
    (case read_property N property of
       Inl e \<Rightarrow> Inl e
     | Inr t \<Rightarrow> read_properties place N rest (um_assign place (prop_name property) t props_dict))"

definition read_ply_element :: "placement \<Rightarrow> PLYReader \<Rightarrow> nat \<Rightarrow> exn + string \<times> PropertiesType" where
  "read_ply_element place reader element_idx =
    (if element_idx < num_elements reader then
       (let element = m_elements reader ! element_idx;
            N = count element
        in case read_properties place N (properties element) [] of
             Inl e \<Rightarrow> Inl e
           | Inr props_dict \<Rightarrow> Inr (elem_name element, props_dict))
     else Inl (undefined_behaviour ''no such element''))"

text \<open>
  The loop of \<open>read_ply\<close>, \<open>for (int i = 0; i != reader.num_elements(); ++i)\<close>, from
  \<open>i\<close> on. Each round loads the element \<open>i\<close>, reads it and moves to the next one.
\<close>

function read_ply_loop :: "placement \<Rightarrow> PLYReader \<Rightarrow> nat \<Rightarrow> ElementsType \<Rightarrow> exn + ElementsType" where
  "read_ply_loop place reader i result =
    (if i < num_elements reader then
       (case read_ply_element place reader i of
          Inl e \<Rightarrow> Inl e
        | Inr (el_name, element) \<Rightarrow>
            read_ply_loop place reader (Suc i) (um_assign place el_name element result))
     else Inr result)"
  by pat_completeness auto
termination
  by (relation "measure (\<lambda>(place, reader, i, result). num_elements reader - i)") auto

declare read_ply_loop.simps [simp del]

text \<open>\<open>read_ply\<close>, with the reader constructed on the path.\<close>

definition read_ply :: "placement \<Rightarrow> PLYReader \<Rightarrow> string \<Rightarrow> exn + ElementsType" where
  "read_ply place reader path =
    (if \<not> valid reader then Inl (runtime_error (''Failed to open specified path: '' @ path))
     else read_ply_loop place reader 0 [])"

subsection \<open>The dense float reader\<close>

text \<open>
  \<open>read_float_ply\<close>, with the reader constructed on the path, the bytes of the file
  the input stream is opened on (\<open>None\<close> when it cannot be opened) and the bytes the
  fresh tensor of \<open>torch::empty\<close> happens to hold. \<open>data_size\<close> is a \<open>size_t\<close>; the
  seek offset \<open>-data_size\<close> is that number negated at 64 bits and read as signed. A
  seek that leaves the file fails, and a read on a failed stream stores nothing.
\<close>

definition read_float_ply :: "PLYReader \<Rightarrow> string option \<Rightarrow> string \<Rightarrow> string \<Rightarrow> exn + Tensor \<times> string list" where
  "read_float_ply reader file uninit path =
    (if \<not> valid reader then Inl (runtime_error (''Failed to open specified path: '' @ path))
     else if num_elements reader \<noteq> 1 then Inl (runtime_error ''Invalid PLY file'')
     else
       (let elem = m_elements reader ! 0 in
        if file_type reader \<noteq> Binary then Inl (runtime_error ''Unsupported PLY file encoding'')
        else
          (let props = map prop_name (properties elem);
               shape = [unat (count elem), length (properties elem)];
               data_size = (ucast (count elem) * of_nat (length (properties elem)) * 4 :: 64 word);
               allocated = take (4 * unat (count elem) * length (properties elem)) uninit;
               bytes_read =
                 (case file of
                    None \<Rightarrow> []
                  | Some bytes \<Rightarrow>
                     (let pos = int (length bytes) + sint (- data_size) in
                      if 0 \<le> pos \<and> pos \<le> int (length bytes) \<and> 0 \<le> sint data_size
                      then take (nat (sint data_size)) (drop (nat pos) bytes)
                      else []))
           in Inr (\<lparr>sizes = shape, scalar_type = kFloat32, device = kCPU,
                     data_ptr = bytes_read @ drop (length bytes_read) allocated\<rparr>, props))))"

subsection \<open>The file format, read\<close>

text \<open>
  Modelled from the spec: the header parser and the payload loader of the PLY reader
  (miniply), which main.cpp calls and does not contain. After the file format of the
  spec: the header is ASCII, in lines that end with a newline, and its last line is
  \<open>end_header\<close>. Its lines are \<open>ply\<close>, \<open>format <encoding> 1.0\<close>, and blocks of
  \<open>element <name> <count>\<close> followed by \<open>property <type> <name>\<close> or
  \<open>property list uchar <type> <name>\<close>. The scalar type names are \<open>char\<close>,
  \<open>uchar\<close>, \<open>short\<close>, \<open>ushort\<close>, \<open>int\<close>, \<open>uint\<close>, \<open>float\<close> and \<open>double\<close>,
  of 1, 1, 2, 2, 4, 4, 4 and 8 bytes. The payload is binary and row-major: the elements in
  header order, the rows of an element one after the other, the properties of a row in
  declaration order, and a list property prefixed in every row by one unsigned byte that
  holds the number of its items. The values are handed over as they are in the file.
\<close>

text \<open>The lines of the header, up to \<open>end_header\<close>, and the bytes after it.\<close>

fun header_lines :: "string \<Rightarrow> string \<Rightarrow> string list \<Rightarrow> (string list \<times> string) option" where
  "header_lines [] cur acc = None"
| "header_lines (c # cs) cur acc =
    (if c = CHR ''\<newline>''
     then (if cur = ''end_header'' then Some (acc, cs) else header_lines cs [] (acc @ [cur]))
     else header_lines cs (cur @ [c]) acc)"

text \<open>The words of a line, separated by single spaces.\<close>

fun split_words :: "string \<Rightarrow> string \<Rightarrow> string list" where
  "split_words [] cur = [cur]"
| "split_words (c # cs) cur =
    (if c = CHR '' '' then cur # split_words cs [] else split_words cs (cur @ [c]))"

definition digit_of :: "char \<Rightarrow> nat option" where
  "digit_of c =
    (if (48::nat) \<le> of_char c \<and> of_char c \<le> (57::nat) then Some (of_char c - 48) else None)"

fun parse_digits :: "string \<Rightarrow> nat \<Rightarrow> nat option" where
  "parse_digits [] acc = Some acc"
| "parse_digits (c # cs) acc =
    (case digit_of c of None \<Rightarrow> None | Some d \<Rightarrow> parse_digits cs (acc * 10 + d))"

text \<open>A row count is a decimal number that fits 32 bits.\<close>

definition parse_count :: "string \<Rightarrow> 32 word option" where
  "parse_count s =
    (if s = [] then None
     else case parse_digits s 0 of
            None \<Rightarrow> None
          | Some n \<Rightarrow> if n < 2 ^ 32 then Some (of_nat n) else None)"

definition parse_type :: "string \<Rightarrow> PLYPropertyType option" where
  "parse_type s =
    map_of [(''char'', PLY_Char), (''uchar'', PLY_UChar), (''short'', PLY_Short),
            (''ushort'', PLY_UShort), (''int'', PLY_Int), (''uint'', PLY_UInt),
            (''float'', PLY_Float), (''double'', PLY_Double)] s"

definition parse_format :: "string \<Rightarrow> PLYFileType option" where
  "parse_format l =
    map_of [(''format ascii 1.0'', ASCII), (''format binary_little_endian 1.0'', Binary),
            (''format binary_big_endian 1.0'', BinaryBigEndian)] l"

text \<open>A property line goes to the element declared last.\<close>

definition add_property :: "PLYProperty \<Rightarrow> PLYElement list \<Rightarrow> PLYElement list option" where
  "add_property p els =
    (if els = [] then None
     else Some (butlast els @ [(last els)\<lparr>properties := properties (last els) @ [p]\<rparr>]))"

definition parse_declaration :: "string \<Rightarrow> PLYElement list \<Rightarrow> PLYElement list option" where
  "parse_declaration l els =
    (let ws = split_words l [] in
     if length ws = 3 \<and> ws ! 0 = ''element'' then
       (case parse_count (ws ! 2) of
          None \<Rightarrow> None
        | Some n \<Rightarrow>
            if ws ! 1 = [] then None
            else Some (els @ [\<lparr>elem_name = ws ! 1, count = n, properties = []\<rparr>]))
     else if length ws = 3 \<and> ws ! 0 = ''property'' then
       (case parse_type (ws ! 1) of
          None \<Rightarrow> None
        | Some t \<Rightarrow>
            if ws ! 2 = [] then None
            else add_property \<lparr>prop_name = ws ! 2, prop_type = t, countType = PLY_None,
                                rowCount = [], prop_values = []\<rparr> els)
     else if length ws = 5 \<and> ws ! 0 = ''property'' \<and> ws ! 1 = ''list'' \<and> ws ! 2 = ''uchar'' then
       (case parse_type (ws ! 3) of
          None \<Rightarrow> None
        | Some t \<Rightarrow>
            if ws ! 4 = [] then None
            else add_property \<lparr>prop_name = ws ! 4, prop_type = t, countType = PLY_UChar,
                                rowCount = [], prop_values = []\<rparr> els)
     else None)"

fun parse_declarations :: "string list \<Rightarrow> PLYElement list \<Rightarrow> PLYElement list option" where
  "parse_declarations [] els = Some els"
| "parse_declarations (l # ls) els =
    (case parse_declaration l els of None \<Rightarrow> None | Some els' \<Rightarrow> parse_declarations ls els')"

definition parse_header :: "string \<Rightarrow> (PLYFileType \<times> PLYElement list \<times> string) option" where
  "parse_header bytes =
    (case header_lines bytes [] [] of
       None \<Rightarrow> None
     | Some (ls, payload) \<Rightarrow>
        (case ls of
           magic # format # decls \<Rightarrow>
             if magic = ''ply'' then
               (case parse_format format of
                  None \<Rightarrow> None
                | Some ft \<Rightarrow>
                   (case parse_declarations decls [] of
                      None \<Rightarrow> None
                    | Some els \<Rightarrow> Some (ft, els, payload)))
             else None
         | _ \<Rightarrow> None))"

definition type_size :: "PLYPropertyType \<Rightarrow> nat" where
  "type_size t =
    (case t of PLY_Char \<Rightarrow> 1 | PLY_UChar \<Rightarrow> 1 | PLY_Short \<Rightarrow> 2 | PLY_UShort \<Rightarrow> 2
     | PLY_Int \<Rightarrow> 4 | PLY_UInt \<Rightarrow> 4 | PLY_Float \<Rightarrow> 4 | PLY_Double \<Rightarrow> 8 | PLY_None \<Rightarrow> 0)"

text \<open>
  Loading one row hands every property its cell: the bytes of the value, or the count
  byte and the bytes of the items. \<open>None\<close> when the payload ends early.
\<close>

fun load_row :: "PLYProperty list \<Rightarrow> string \<Rightarrow> (PLYProperty list \<times> string) option" where
  "load_row [] bytes = Some ([], bytes)"
| "load_row (p # ps) bytes =
    (if countType p = PLY_None then
       (let n = type_size (prop_type p) in
        if length bytes < n then None
        else case load_row ps (drop n bytes) of
               None \<Rightarrow> None
             | Some (ps', rest) \<Rightarrow>
                 Some (p\<lparr>prop_values := prop_values p @ take n bytes\<rparr> # ps', rest))
     else
       (case bytes of
          [] \<Rightarrow> None
        | c # bs \<Rightarrow>
           (let k = (of_char c :: nat); n = k * type_size (prop_type p) in
            if length bs < n then None
            else case load_row ps (drop n bs) of
                   None \<Rightarrow> None
                 | Some (ps', rest) \<Rightarrow>
                     Some (p\<lparr>rowCount := rowCount p @ [of_nat k],
                             prop_values := prop_values p @ take n bs\<rparr> # ps', rest))))"

fun load_rows :: "nat \<Rightarrow> PLYProperty list \<Rightarrow> string \<Rightarrow> (PLYProperty list \<times> string) option" where
  "load_rows 0 ps bytes = Some (ps, bytes)"
| "load_rows (Suc k) ps bytes =
    (case load_row ps bytes of None \<Rightarrow> None | Some (ps', rest) \<Rightarrow> load_rows k ps' rest)"

fun load_elements :: "PLYElement list \<Rightarrow> string \<Rightarrow> PLYElement list option" where
  "load_elements [] bytes = Some []"
| "load_elements (e # es) bytes =
    (case load_rows (unat (count e)) (properties e) bytes of
       None \<Rightarrow> None
     | Some (ps, rest) \<Rightarrow>
        (case load_elements es rest of
           None \<Rightarrow> None
         | Some es' \<Rightarrow> Some (e\<lparr>properties := ps\<rparr> # es')))"

text \<open>
  The reader constructed on a file. It is valid when the file exists and its header
  parses. The payload of a binary file is loaded; when it ends early, and for an ASCII
  file, the elements keep their declarations and hold no values.
\<close>

definition PLYReader_open :: "string option \<Rightarrow> PLYReader" where
  "PLYReader_open file =
    (case file of
       None \<Rightarrow> \<lparr>valid = False, file_type = ASCII, m_elements = []\<rparr>
     | Some bytes \<Rightarrow>
        (case parse_header bytes of
           None \<Rightarrow> \<lparr>valid = False, file_type = ASCII, m_elements = []\<rparr>
         | Some (ft, els, payload) \<Rightarrow>
            \<lparr>valid = True, file_type = ft,
             m_elements =
               (if ft = ASCII then els
                else case load_elements els payload of None \<Rightarrow> els | Some els' \<Rightarrow> els')\<rparr>))"


definition read_float_ply_file :: "filesystem \<Rightarrow> string \<Rightarrow> string \<Rightarrow> exn + Tensor \<times> string list" where
  "read_float_ply_file fs uninit path =
    read_float_ply (PLYReader_open (files fs path)) (files fs path) uninit path"

section \<open>Example inputs\<close>

text \<open>
  A file system where every path can be written, one where no path can, and one that
  already holds a file at the destination.
\<close>

definition fs_writable :: filesystem where
  "fs_writable = \<lparr>files = (\<lambda>p. None), creatable = (\<lambda>p. True)\<rparr>"

definition fs_readonly :: filesystem where
  "fs_readonly = \<lparr>files = (\<lambda>p. None), creatable = (\<lambda>p. False)\<rparr>"

definition fs_existing :: filesystem where
  "fs_existing =
    \<lparr>files = (\<lambda>p. if p = ''out.ply'' then Some ''old contents'' else None),
     creatable = (\<lambda>p. True)\<rparr>"

text \<open>A \<open>[2, 1]\<close> tensor of two floats 1.0, in little-endian bytes.\<close>

definition ones_2x1 :: Tensor where
  "ones_2x1 =
    \<lparr>sizes = [2, 1], scalar_type = kFloat32, device = kCPU,
     data_ptr = [CHR 0x00, CHR 0x00, CHR 0x80, CHR 0x3F, CHR 0x00, CHR 0x00, CHR 0x80, CHR 0x3F]\<rparr>"

text \<open>A little-endian and a big-endian host, both with a signed \<open>char\<close>.\<close>

definition host_le :: host where
  "host_le = \<lparr>big_endian = False, char_signed = True\<rparr>"

definition host_be :: host where
  "host_be = \<lparr>big_endian = True, char_signed = True\<rparr>"

text \<open>A document with one element and one float property.\<close>

definition doc_x :: ElementsType where
  "doc_x = [(''vertex'', [(''x'', ones_2x1)])]"




text \<open>
  Two readers as the collaborator leaves them after parsing and loading a file with a
  scalar element \<open>vertex\<close> and an element \<open>face\<close> whose list property has rows of
  length 2 and 3, or of length 3 throughout.
\<close>

definition vertex_x :: PLYElement where
  "vertex_x =
    \<lparr>elem_name = ''vertex'', count = 2,
     properties = [\<lparr>prop_name = ''x'', prop_type = PLY_UChar, countType = PLY_None,
                    rowCount = [], prop_values = [CHR 0x07, CHR 0x08]\<rparr>]\<rparr>"

definition face_jagged :: PLYElement where
  "face_jagged =
    \<lparr>elem_name = ''face'', count = 2,
     properties = [\<lparr>prop_name = ''vertex_indices'', prop_type = PLY_UChar, countType = PLY_UChar,
                    rowCount = [3, 2], prop_values = [CHR 0x00, CHR 0x01, CHR 0x02, CHR 0x01, CHR 0x00]\<rparr>]\<rparr>"

definition face_uniform :: PLYElement where
  "face_uniform =
    \<lparr>elem_name = ''face'', count = 2,
     properties = [\<lparr>prop_name = ''vertex_indices'', prop_type = PLY_UChar, countType = PLY_UChar,
                    rowCount = [3, 3],
                    prop_values = [CHR 0x00, CHR 0x01, CHR 0x02, CHR 0x02, CHR 0x01, CHR 0x00]\<rparr>]\<rparr>"

definition reader_jagged :: PLYReader where
  "reader_jagged = \<lparr>valid = True, file_type = Binary, m_elements = [vertex_x, face_jagged]\<rparr>"

definition reader_uniform :: PLYReader where
  "reader_uniform = \<lparr>valid = True, file_type = Binary, m_elements = [vertex_x, face_uniform]\<rparr>"

text \<open>
  An element without rows that declares a list property, and the reader of a file that
  declares it before the jagged element.
\<close>

definition patch_empty :: PLYElement where
  "patch_empty =
    \<lparr>elem_name = ''patch'', count = 0,
     properties = [\<lparr>prop_name = ''corners'', prop_type = PLY_UChar, countType = PLY_UChar,
                    rowCount = [], prop_values = []\<rparr>]\<rparr>"

definition reader_empty_then_jagged :: PLYReader where
  "reader_empty_then_jagged =
    \<lparr>valid = True, file_type = Binary, m_elements = [patch_empty, face_jagged]\<rparr>"

text \<open>
  A file with one vertex and two float properties, and a file with thirty rows of one
  byte property, each with the reader the collaborator constructs on it.
\<close>

definition file_xy :: string where
  "file_xy =
    ''ply'' @ ''\<newline>'' @ ''format binary_little_endian 1.0'' @ ''\<newline>''
    @ ''element vertex 1'' @ ''\<newline>''
    @ ''property float x'' @ ''\<newline>'' @ ''property float y'' @ ''\<newline>''
    @ ''end_header'' @ ''\<newline>''
    @ [CHR 0x00, CHR 0x00, CHR 0x80, CHR 0x3F, CHR 0x00, CHR 0x00, CHR 0x00, CHR 0x40]"

definition reader_xy :: PLYReader where
  "reader_xy =
    \<lparr>valid = True, file_type = Binary,
     m_elements =
       [\<lparr>elem_name = ''vertex'', count = 1,
         properties =
           [\<lparr>prop_name = ''x'', prop_type = PLY_Float, countType = PLY_None, rowCount = [],
             prop_values = [CHR 0x00, CHR 0x00, CHR 0x80, CHR 0x3F]\<rparr>,
            \<lparr>prop_name = ''y'', prop_type = PLY_Float, countType = PLY_None, rowCount = [],
             prop_values = [CHR 0x00, CHR 0x00, CHR 0x00, CHR 0x40]\<rparr>]\<rparr>]\<rparr>"

definition file_30 :: string where
  "file_30 =
    ''ply'' @ ''\<newline>'' @ ''format binary_little_endian 1.0'' @ ''\<newline>''
    @ ''element v 30'' @ ''\<newline>'' @ ''property uchar x'' @ ''\<newline>''
    @ ''end_header'' @ ''\<newline>''
    @ replicate 30 (CHR ''.'')"

definition reader_30 :: PLYReader where
  "reader_30 =
    \<lparr>valid = True, file_type = Binary,
     m_elements =
       [\<lparr>elem_name = ''v'', count = 30,
         properties =
           [\<lparr>prop_name = ''x'', prop_type = PLY_UChar, countType = PLY_None, rowCount = [],
             prop_values = replicate 30 (CHR ''.'')\<rparr>]\<rparr>]\<rparr>"



subsection \<open>The layout of a written file\<close>

text \<open>
  The file format, as the writer is meant to produce it: the header names the byte
  order, then every element with its row count and one line per property; the payload
  holds, element after element and row after row, the cells of the properties in the
  order of their header lines. The cell of a list property starts with a byte that holds
  the list length.
\<close>

definition width :: "Tensor \<Rightarrow> nat" where
  "width data = (if ndimension data > 1 then sizes data ! 1 else 1)"

definition byte_width :: "ScalarType \<Rightarrow> nat" where
  "byte_width t = (case map_of torch_dtype_to_size t of Some w \<Rightarrow> unat w | None \<Rightarrow> 0)"

definition format_name :: "ScalarType \<Rightarrow> string" where
  "format_name t = (case map_of torch_dtype_to_ply t of Some s \<Rightarrow> s | None \<Rightarrow> [])"

definition property_line :: "string \<times> Tensor \<Rightarrow> string" where
  "property_line = (\<lambda>(name, data).
    (if width data > 1 then ''property list uchar '' else ''property '')
    @ format_name (scalar_type data) @ '' '' @ name @ ''\<newline>'')"

definition cell_bytes :: "Tensor \<Rightarrow> nat" where
  "cell_bytes data = (if width data > 1 then width data else 1) * byte_width (scalar_type data)"

definition cell :: "Tensor \<Rightarrow> nat \<Rightarrow> string" where
  "cell data r =
    (if width data > 1 then [char_of (width data)] else [])
    @ take (cell_bytes data) (drop (r * cell_bytes data) (data_ptr data))"

definition element_rows :: "PropertiesType \<Rightarrow> nat" where
  "element_rows element = (case element of [] \<Rightarrow> 0 | (first_name, first) # others \<Rightarrow> sizes first ! 0)"

definition element_lines :: "string \<times> PropertiesType \<Rightarrow> string" where
  "element_lines = (\<lambda>(name, element).
    ''element '' @ name @ '' '' @ to_string (element_rows element) @ ''\<newline>''
    @ concat (map property_line element))"

definition row_cells :: "PropertiesType \<Rightarrow> nat \<Rightarrow> string" where
  "row_cells element r = concat (map (\<lambda>(name, data). cell data r) element)"

definition element_payload :: "string \<times> PropertiesType \<Rightarrow> string" where
  "element_payload = (\<lambda>(name, element). concat (map (row_cells element) [0..<element_rows element]))"

definition format_line :: "host \<Rightarrow> string" where
  "format_line h =
    (if big_endian h then ''format binary_big_endian 1.0'' else ''format binary_little_endian 1.0'')
    @ ''\<newline>''"

definition ply_layout :: "host \<Rightarrow> ElementsType \<Rightarrow> string" where
  "ply_layout h doc =
    ''ply'' @ ''\<newline>'' @ format_line h @ concat (map element_lines doc)
    @ ''end_header'' @ ''\<newline>'' @ concat (map element_payload doc)"

text \<open>
  The documents the writer can lay out. Every scalar type has a format name, the first
  property of every element has a first dimension, which is below \<open>2^32\<close>, every
  tensor holds the bytes of all the rows, and a list length fits the \<open>char\<close> that
  stores it.
\<close>

definition supported :: "ScalarType \<Rightarrow> bool" where
  "supported t = (t \<in> {kUInt8, kInt8, kUInt16, kInt16, kUInt32, kInt32, kFloat32, kFloat64})"

definition writable_column :: "host \<Rightarrow> nat \<Rightarrow> Tensor \<Rightarrow> bool" where
  "writable_column h n data =
    (supported (scalar_type data) \<and> n * cell_bytes data \<le> length (data_ptr data)
     \<and> width data < (if char_signed h then 128 else 256))"

definition writable_element :: "host \<Rightarrow> PropertiesType \<Rightarrow> bool" where
  "writable_element h element =
    (element \<noteq> [] \<and> 1 \<le> ndimension (snd (hd element)) \<and> element_rows element < 2 ^ 32
     \<and> list_all (\<lambda>(name, data). writable_column h (element_rows element) data) element)"

definition writable :: "host \<Rightarrow> ElementsType \<Rightarrow> bool" where
  "writable h doc = list_all (\<lambda>(name, element). writable_element h element) doc"

text \<open>The state of the payload loop, row by row.\<close>

definition cell_width :: "host \<Rightarrow> columns \<Rightarrow> nat \<Rightarrow> nat" where
  "cell_width h c j =
    (if is_list c ! j = CHR 0x00 then unat (strides c ! j)
     else unat (strides c ! j * char_to_uint32 h (list_sizes c ! j)))"

definition cell_out :: "host \<Rightarrow> string list \<Rightarrow> columns \<Rightarrow> nat \<Rightarrow> nat \<Rightarrow> string" where
  "cell_out h bufs c j ptr =
    (if is_list c ! j = CHR 0x00 then [] else [list_sizes c ! j])
    @ take (cell_width h c j) (drop ptr (bufs ! j))"

definition advance :: "host \<Rightarrow> columns \<Rightarrow> nat \<Rightarrow> nat list" where
  "advance h c i =
    map (\<lambda>j. if i \<le> j then src_ptrs c ! j + cell_width h c j else src_ptrs c ! j)
      [0..<length (src_ptrs c)]"

definition after_rows :: "host \<Rightarrow> columns \<Rightarrow> nat \<Rightarrow> nat list" where
  "after_rows h c k =
    map (\<lambda>j. src_ptrs c ! j + k * cell_width h c j) [0..<length (src_ptrs c)]"

definition row_out :: "host \<Rightarrow> string list \<Rightarrow> columns \<Rightarrow> nat \<Rightarrow> string" where
  "row_out h bufs c r =
    concat (map (\<lambda>j. cell_out h bufs c j (src_ptrs c ! j + r * cell_width h c j))
      [0..<length (src_ptrs c)])"

text \<open>The arrays of the payload loop once they are filled in.\<close>

definition column_is_list :: "string \<times> Tensor \<Rightarrow> char" where
  "column_is_list = (\<lambda>(name, data). if width data > 1 then CHR 0x01 else CHR 0x00)"

definition column_list_size :: "string \<times> Tensor \<Rightarrow> char" where
  "column_list_size = (\<lambda>(name, data). if width data > 1 then char_of (width data) else CHR 0x00)"

definition column_stride :: "string \<times> Tensor \<Rightarrow> 32 word" where
  "column_stride = (\<lambda>(name, data). of_nat (byte_width (scalar_type data)))"

definition columns_of :: "PropertiesType \<Rightarrow> columns" where
  "columns_of element =
    \<lparr>src_ptrs = replicate (length element) 0, strides = map column_stride element,
     is_list = map column_is_list element, list_sizes = map column_list_size element\<rparr>"

text \<open>
  The properties the reader turns into a tensor: the value type is one of the eight, and
  the rows of a list property all have one and the same length.
\<close>

definition readable :: "PLYProperty \<Rightarrow> bool" where
  "readable property =
    (prop_type property \<noteq> PLY_None
     \<and> (countType property = PLY_None \<or> card (set (rowCount property)) = 1))"

subsection \<open>Documents of scalar columns\<close>



















section \<open>Theorems\<close>

subsection \<open>Lists and numbers\<close>


lemma to_string_small: "n < 10 \<Longrightarrow> to_string n = [digit_char n]"
  by (simp add: to_string.simps)


subsection \<open>Unordered maps\<close>

lemma map_of_um_assign:
  "map_of (um_assign place k v m) k' = (if k' = k then Some v else map_of m k')"
proof (cases "k \<in> fst ` set m")
  case True
  then show ?thesis by (simp add: um_assign_def update_conv')
next
  case False
  let ?i = "min (place (map fst m) k) (length m)"
  have nk: "map_of (take ?i m) k = None"
    using False by (auto simp: map_of_eq_None_iff dest: in_set_takeD)
  have "map_of m k' = map_of (take ?i m @ drop ?i m) k'" by simp
  also have "\<dots> = (map_of (drop ?i m) ++ map_of (take ?i m)) k'"
    by (simp only: map_of_append)
  finally have m: "map_of m k' = (map_of (drop ?i m) ++ map_of (take ?i m)) k'" .
  show ?thesis
    using False nk m
    by (auto simp: um_assign_def Let_def map_add_def split: option.splits)
qed

lemma keys_um_assign:
  "set (map fst (um_assign place k v m)) = insert k (set (map fst m))"
proof (cases "k \<in> fst ` set m")
  case True
  then show ?thesis by (auto simp: um_assign_def update_keys image_iff)
next
  case False
  let ?i = "min (place (map fst m) k) (length m)"
  have "set (take ?i m) \<union> set (drop ?i m) = set m"
    by (metis append_take_drop_id set_append)
  then show ?thesis
    using False by (auto simp: um_assign_def Let_def)
qed


subsection \<open>The payload loops\<close>

text \<open>
  As long as every cursor stays inside its buffer, the property loop writes the cells of
  one row in the order of the columns and moves every cursor by one cell, and the row loop
  writes the rows in order.
\<close>

lemma write_cell_ok:
  assumes "src_ptrs c ! j + cell_width h c j \<le> length (bufs ! j)"
  shows "write_cell h bufs c j =
    (cell_out h bufs c j (src_ptrs c ! j),
     Inr (c\<lparr>src_ptrs := (src_ptrs c)[j := src_ptrs c ! j + cell_width h c j]\<rparr>))"
  using assms by (auto simp: write_cell_def cell_width_def cell_out_def read_bytes_def Let_def split: if_splits)

lemma write_row_done: "\<not> prop_idx < n \<Longrightarrow> write_row h bufs n c prop_idx = ([], Inr c)"
  by (subst write_row.simps) simp

lemma write_row_step:
  "prop_idx < n \<Longrightarrow> write_row h bufs n c prop_idx =
       (case write_cell h bufs c prop_idx of
          (s, Inl e) \<Rightarrow> (s, Inl e)
        | (s, Inr c') \<Rightarrow> (case write_row h bufs n c' (Suc prop_idx) of (s', r) \<Rightarrow> (s @ s', r)))"
  by (subst write_row.simps) simp

lemma cell_width_ptrs [simp]: "cell_width h (c\<lparr>src_ptrs := p\<rparr>) j = cell_width h c j"
  by (simp add: cell_width_def)

lemma cell_out_ptrs [simp]: "cell_out h bufs (c\<lparr>src_ptrs := p\<rparr>) j q = cell_out h bufs c j q"
  by (simp add: cell_out_def)

lemma advance_all: "length (src_ptrs c) \<le> i \<Longrightarrow> advance h c i = src_ptrs c"
  by (auto simp: advance_def intro: nth_equalityI)

lemma advance_step:
  "i < length (src_ptrs c) \<Longrightarrow>
   advance h (c\<lparr>src_ptrs := (src_ptrs c)[i := src_ptrs c ! i + cell_width h c i]\<rparr>) (Suc i) = advance h c i"
proof (rule nth_equalityI)
  show "length (advance h (c\<lparr>src_ptrs := (src_ptrs c)[i := src_ptrs c ! i + cell_width h c i]\<rparr>) (Suc i))
      = length (advance h c i)"
    by (simp add: advance_def)
next
  fix j
  assume "j < length (advance h (c\<lparr>src_ptrs := (src_ptrs c)[i := src_ptrs c ! i + cell_width h c i]\<rparr>) (Suc i))"
  then have j: "j < length (src_ptrs c)" by (simp add: advance_def)
  consider "j < i" | "j = i" | "Suc i \<le> j" by linarith
  then show "advance h (c\<lparr>src_ptrs := (src_ptrs c)[i := src_ptrs c ! i + cell_width h c i]\<rparr>) (Suc i) ! j
      = advance h c i ! j"
    using j by cases (simp_all add: advance_def nth_list_update)
qed

lemma write_row_layout:
  assumes "length (src_ptrs c) = n"
    and "\<forall>j<n. i \<le> j \<longrightarrow> src_ptrs c ! j + cell_width h c j \<le> length (bufs ! j)"
  shows "write_row h bufs n c i =
    (concat (map (\<lambda>j. cell_out h bufs c j (src_ptrs c ! j)) [i..<n]),
     Inr (c\<lparr>src_ptrs := advance h c i\<rparr>))"
  using assms
proof (induction "n - i" arbitrary: i c)
  case 0
  then show ?case
    by (simp add: write_row_done advance_all)
next
  case (Suc k)
  then have lt: "i < n" by simp
  let ?c' = "c\<lparr>src_ptrs := (src_ptrs c)[i := src_ptrs c ! i + cell_width h c i]\<rparr>"
  have k: "k = n - Suc i" using Suc.hyps by simp
  have len: "length (src_ptrs ?c') = n" using Suc.prems by simp
  have bnd: "\<forall>j<n. Suc i \<le> j \<longrightarrow> src_ptrs ?c' ! j + cell_width h ?c' j \<le> length (bufs ! j)"
    using Suc.prems(2) by (simp add: nth_list_update)
  have ih: "write_row h bufs n ?c' (Suc i) =
     (concat (map (\<lambda>j. cell_out h bufs ?c' j (src_ptrs ?c' ! j)) [Suc i..<n]),
     Inr (?c'\<lparr>src_ptrs := advance h ?c' (Suc i)\<rparr>))"
    by (rule Suc.hyps(1) [OF k len bnd])
  have same: "map (\<lambda>j. cell_out h bufs c j ((src_ptrs c)[i := src_ptrs c ! i + cell_width h c i] ! j)) [Suc i..<n]
      = map (\<lambda>j. cell_out h bufs c j (src_ptrs c ! j)) [Suc i..<n]"
    by (rule map_cong) (auto simp: nth_list_update)
  have adv: "advance h ?c' (Suc i) = advance h c i"
    using lt Suc.prems(1) by (simp add: advance_step)
  have cell: "write_cell h bufs c i = (cell_out h bufs c i (src_ptrs c ! i), Inr ?c')"
    using Suc.prems(2) lt by (simp add: write_cell_ok)
  have up: "[i..<n] = i # [Suc i..<n]" using lt by (simp add: upt_conv_Cons)
  show ?case
    by (simp add: write_row_step [OF lt] cell ih same adv up)
qed


lemma after_rows_0: "after_rows h c 0 = src_ptrs c"
  by (auto simp: after_rows_def intro: nth_equalityI)

lemma advance_0: "advance h c 0 = after_rows h c (Suc 0)"
  by (simp add: advance_def after_rows_def)

lemma after_rows_Suc:
  "after_rows h (c\<lparr>src_ptrs := after_rows h c (Suc 0)\<rparr>) k = after_rows h c (Suc k)"
  by (auto simp: after_rows_def intro!: nth_equalityI)

lemma row_out_shift:
  "row_out h bufs (c\<lparr>src_ptrs := after_rows h c (Suc 0)\<rparr>) r = row_out h bufs c (Suc r)"
  unfolding row_out_def
  by (rule arg_cong [where f = concat], rule map_cong) (auto simp: after_rows_def add.assoc)

lemma write_rows_layout:
  assumes "length (src_ptrs c) = n"
    and "\<forall>j<n. src_ptrs c ! j + rows * cell_width h c j \<le> length (bufs ! j)"
  shows "write_rows h bufs n c rows =
    (concat (map (row_out h bufs c) [0..<rows]), Inr (c\<lparr>src_ptrs := after_rows h c rows\<rparr>))"
  using assms
proof (induction rows arbitrary: c)
  case 0
  then show ?case by (simp add: after_rows_0)
next
  case (Suc rows)
  let ?c' = "c\<lparr>src_ptrs := after_rows h c (Suc 0)\<rparr>"
  have b0: "\<forall>j<n. 0 \<le> j \<longrightarrow> src_ptrs c ! j + cell_width h c j \<le> length (bufs ! j)"
  proof (intro allI impI)
    fix j assume "j < n"
    with Suc.prems(2) have "src_ptrs c ! j + Suc rows * cell_width h c j \<le> length (bufs ! j)" by simp
    then show "src_ptrs c ! j + cell_width h c j \<le> length (bufs ! j)" by simp
  qed
  have row: "write_row h bufs n c 0 = (row_out h bufs c 0, Inr ?c')"
    using write_row_layout [OF Suc.prems(1) b0] Suc.prems(1)
    by (simp add: row_out_def advance_0)
  have len: "length (src_ptrs ?c') = n"
    using Suc.prems(1) by (simp add: after_rows_def)
  have bnd: "\<forall>j<n. src_ptrs ?c' ! j + rows * cell_width h ?c' j \<le> length (bufs ! j)"
  proof (intro allI impI)
    fix j assume j: "j < n"
    with Suc.prems(2) have "src_ptrs c ! j + Suc rows * cell_width h c j \<le> length (bufs ! j)" by simp
    then show "src_ptrs ?c' ! j + rows * cell_width h ?c' j \<le> length (bufs ! j)"
      using j Suc.prems(1) by (simp add: after_rows_def)
  qed
  have ih: "write_rows h bufs n ?c' rows =
      (concat (map (row_out h bufs ?c') [0..<rows]), Inr (?c'\<lparr>src_ptrs := after_rows h ?c' rows\<rparr>))"
    by (rule Suc.IH [OF len bnd])
  have shift: "map (row_out h bufs ?c') [0..<rows] = map (row_out h bufs c) [Suc 0..<Suc rows]"
  proof -
    have "[Suc 0..<Suc rows] = map Suc [0..<rows]"
      by (simp only: map_Suc_upt)
    moreover have "row_out h bufs ?c' = (\<lambda>r. row_out h bufs c (Suc r))"
      by (rule ext) (rule row_out_shift)
    ultimately show ?thesis by (simp only: map_map comp_def)
  qed
  have up: "[0..<Suc rows] = 0 # [Suc 0..<Suc rows]"
    by (simp add: upt_conv_Cons del: upt_Suc)
  have "write_rows h bufs n c (Suc rows) =
      (row_out h bufs c 0 @ concat (map (row_out h bufs c) [Suc 0..<Suc rows]),
       Inr (c\<lparr>src_ptrs := after_rows h c (Suc rows)\<rparr>))"
    by (simp add: row ih shift after_rows_Suc del: upt_Suc)
  then show ?case
    by (simp add: up del: upt_Suc)
qed

subsection \<open>The header loops\<close>

lemma for_each_ok:
  assumes "\<And>x. x \<in> set xs \<Longrightarrow> body x = (f x, None)"
  shows "for_each body xs = (concat (map f xs), None)"
  using assms by (induction xs) simp_all

lemma supported_size:
  "supported t \<Longrightarrow> \<exists>w. get_torch_dtype_size t = Inr w \<and> unat w = byte_width t \<and> 0 < unat w \<and> unat w \<le> 8"
  by (cases t) (simp_all add: supported_def get_torch_dtype_size_def byte_width_def torch_dtype_to_size_def)

lemma supported_name:
  "supported t \<Longrightarrow> get_ply_dtype t = Inr (format_name t)"
  by (cases t) (simp_all add: supported_def get_ply_dtype_def format_name_def torch_dtype_to_ply_def)

lemma write_property_line_ok:
  "supported (scalar_type data) \<Longrightarrow> write_property_line (name, data) = (property_line (name, data), None)"
  by (simp add: write_property_line_def property_line_def supported_name width_def)

lemma writable_element_columns:
  "writable_element h element \<Longrightarrow> (name, data) \<in> set element \<Longrightarrow> writable_column h (element_rows element) data"
  by (auto simp: writable_element_def list_all_iff)

lemma write_element_header_ok:
  assumes "writable_element h element"
  shows "write_element_header (name, element) = (element_lines (name, element), None)"
proof -
  obtain first_name first others where e: "element = (first_name, first) # others"
    using assms by (cases element) (auto simp: writable_element_def)
  have sz: "size_at first 0 = Inr (element_rows element)"
    using assms e by (simp add: writable_element_def size_at_def element_rows_def)
  have "for_each write_property_line element = (concat (map property_line element), None)"
  proof (rule for_each_ok)
    fix x assume "x \<in> set element"
    then have "writable_column h (element_rows element) (snd x)"
      using writable_element_columns [OF assms, of "fst x" "snd x"] by simp
    then show "write_property_line x = (property_line x, None)"
      using write_property_line_ok [of "snd x" "fst x"] by (simp add: writable_column_def)
  qed
  then show ?thesis
    using sz unfolding e by (simp add: write_element_header_def element_lines_def)
qed

subsection \<open>The arrays of the payload loop\<close>

lemma fill_columns_ok:
  assumes "list_all (\<lambda>(name, data). supported (scalar_type data)) rest"
    and "length ps = i" "length ss = i" "length ls = i" "length zs = i"
  shows "fill_columns rest i
      \<lparr>src_ptrs = ps @ replicate (length rest) 0, strides = ss @ replicate (length rest) 0,
       is_list = ls @ replicate (length rest) (CHR 0x00),
       list_sizes = zs @ replicate (length rest) (CHR 0x00)\<rparr>
    = Inr \<lparr>src_ptrs = ps @ replicate (length rest) 0, strides = ss @ map column_stride rest,
       is_list = ls @ map column_is_list rest, list_sizes = zs @ map column_list_size rest\<rparr>"
  using assms
proof (induction rest arbitrary: i ps ss ls zs)
  case Nil
  then show ?case by simp
next
  case (Cons x rest)
  obtain name data where x: "x = (name, data)" by (cases x)
  from Cons.prems(1) x have sup: "supported (scalar_type data)"
    and rest: "list_all (\<lambda>(name, data). supported (scalar_type data)) rest" by simp_all
  from supported_size [OF sup] obtain w where w: "get_torch_dtype_size (scalar_type data) = Inr w"
    and wb: "unat w = byte_width (scalar_type data)" by blast
  have ww: "w = column_stride x"
  proof -
    have "w = of_nat (unat w)" by simp
    then show ?thesis by (simp only: wb column_stride_def x prod.case)
  qed
  have upd: "\<And>(xs :: 'a list) y v ys. length xs = i \<Longrightarrow> (xs @ y # ys)[i := v] = xs @ v # ys"
    by (simp add: list_update_append)
  have cond: "(ndimension data > 1 \<and> sizes data ! 1 > 1) = (width data > 1)"
    by (simp add: width_def)
  have wid: "width data > 1 \<Longrightarrow> sizes data ! Suc 0 = width data"
    by (simp add: width_def split: if_splits)
  have ih: "fill_columns rest (Suc i)
      \<lparr>src_ptrs = (ps @ [0]) @ replicate (length rest) 0, strides = (ss @ [column_stride x]) @ replicate (length rest) 0,
       is_list = (ls @ [column_is_list x]) @ replicate (length rest) CHR 0x00,
       list_sizes = (zs @ [column_list_size x]) @ replicate (length rest) CHR 0x00\<rparr>
    = Inr \<lparr>src_ptrs = (ps @ [0]) @ replicate (length rest) 0, strides = (ss @ [column_stride x]) @ map column_stride rest,
       is_list = (ls @ [column_is_list x]) @ map column_is_list rest,
       list_sizes = (zs @ [column_list_size x]) @ map column_list_size rest\<rparr>"
    by (rule Cons.IH [OF rest]) (simp_all add: Cons.prems)
  have step: "fill_columns (x # rest) i
      \<lparr>src_ptrs = ps @ replicate (length (x # rest)) 0, strides = ss @ replicate (length (x # rest)) 0,
       is_list = ls @ replicate (length (x # rest)) CHR 0x00,
       list_sizes = zs @ replicate (length (x # rest)) CHR 0x00\<rparr>
     = fill_columns rest (Suc i)
      \<lparr>src_ptrs = (ps @ [0]) @ replicate (length rest) 0, strides = (ss @ [column_stride x]) @ replicate (length rest) 0,
       is_list = (ls @ [column_is_list x]) @ replicate (length rest) CHR 0x00,
       list_sizes = (zs @ [column_list_size x]) @ replicate (length rest) CHR 0x00\<rparr>"
  proof (cases "width data > 1")
    case True
    show ?thesis
      unfolding x fill_columns.simps cond
      using True Cons.prems(2-5)
      by (simp add: w ww [unfolded x] upd wid column_is_list_def column_list_size_def Let_def)
  next
    case False
    show ?thesis
      unfolding x fill_columns.simps cond
      using False Cons.prems(2-5)
      by (simp add: w ww [unfolded x] upd column_is_list_def column_list_size_def Let_def)
  qed
  show ?case
    unfolding step ih by simp
qed

lemma fill_columns_init:
  assumes "list_all (\<lambda>(name, data). supported (scalar_type data)) element"
  shows "fill_columns element 0
      \<lparr>src_ptrs = replicate (length element) 0, strides = replicate (length element) 0,
       is_list = replicate (length element) CHR 0x00,
       list_sizes = replicate (length element) CHR 0x00\<rparr>
    = Inr \<lparr>src_ptrs = replicate (length element) 0, strides = map column_stride element,
       is_list = map column_is_list element, list_sizes = map column_list_size element\<rparr>"
  using fill_columns_ok [OF assms, of "[]" 0 "[]" "[]" "[]"] by simp

lemma cell_width_columns_of:
  assumes "j < length element" and "writable_column h n (snd (element ! j))"
  shows "cell_width h (columns_of element) j = cell_bytes (snd (element ! j))"
proof -
  obtain name data where e: "element ! j = (name, data)" by (cases "element ! j")
  from assms(2) e have sup: "supported (scalar_type data)"
    and wd: "width data < (if char_signed h then 128 else 256)"
    by (simp_all add: writable_column_def)
  from supported_size [OF sup] have bw: "0 < byte_width (scalar_type data)" "byte_width (scalar_type data) \<le> 8"
    by auto
  have st: "unat (of_nat (byte_width (scalar_type data)) :: 32 word) = byte_width (scalar_type data)"
    using bw by (simp add: unat_of_nat)
  have w256: "width data < 256" using wd by (simp split: if_splits)
  have cu: "char_to_uint32 h (char_of (width data)) = of_nat (width data)"
    using wd by (auto simp: char_to_uint32_def Let_def split: if_splits)
  have "byte_width (scalar_type data) * width data \<le> 8 * 255"
    using bw(2) w256 by (intro mult_le_mono) simp_all
  then have prod: "unat (of_nat (byte_width (scalar_type data)) * of_nat (width data) :: 32 word)
      = width data * byte_width (scalar_type data)"
    using bw(2) w256 by (simp add: unat_word_ariths unat_of_nat mult.commute)
  show ?thesis
    using assms(1) e
    by (simp add: cell_width_def columns_of_def column_stride_def column_is_list_def column_list_size_def
        cell_bytes_def st cu prod)
qed

lemma cell_out_columns_of:
  assumes "j < length element" and "writable_column h n (snd (element ! j))"
  shows "cell_out h (map (\<lambda>(property_name, data). data_ptr data) element) (columns_of element) j
           (r * cell_bytes (snd (element ! j)))
         = cell (snd (element ! j)) r"
proof -
  obtain name data where e: "element ! j = (name, data)" by (cases "element ! j")
  have cw: "cell_width h (columns_of element) j = cell_bytes data"
    using cell_width_columns_of [OF assms] e by simp
  show ?thesis
    using assms(1) e
    by (simp add: cell_out_def cw cell_def)
       (simp add: columns_of_def column_is_list_def column_list_size_def)
qed

lemma row_out_columns_of:
  assumes "list_all (\<lambda>(name, data). writable_column h n data) element"
  shows "row_out h (map (\<lambda>(property_name, data). data_ptr data) element) (columns_of element) r
         = row_cells element r"
proof -
  have len: "length (src_ptrs (columns_of element)) = length element"
    by (simp add: columns_of_def)
  have each: "cell_out h (map (\<lambda>(property_name, data). data_ptr data) element) (columns_of element) j
           (src_ptrs (columns_of element) ! j + r * cell_width h (columns_of element) j)
         = (\<lambda>(name, data). cell data r) (element ! j)" if j: "j < length element" for j
  proof -
    have w: "writable_column h n (snd (element ! j))"
    proof -
      have "element ! j \<in> set element" using j by simp
      with assms show ?thesis by (auto simp: list_all_iff)
    qed
    have p0: "src_ptrs (columns_of element) ! j = 0"
      using j by (simp add: columns_of_def)
    show ?thesis
      using cell_out_columns_of [OF j w, of r] cell_width_columns_of [OF j w]
      by (simp add: p0 split: prod.splits)
  qed
  have "map (\<lambda>j. cell_out h (map (\<lambda>(property_name, data). data_ptr data) element) (columns_of element) j
           (src_ptrs (columns_of element) ! j + r * cell_width h (columns_of element) j)) [0..<length element]
      = map (\<lambda>j. (\<lambda>(name, data). cell data r) (element ! j)) [0..<length element]"
    by (rule map_cong) (simp_all add: each)
  also have "\<dots> = map (\<lambda>(name, data). cell data r) (map (\<lambda>j. element ! j) [0..<length element])"
    by (simp only: map_map comp_def)
  also have "\<dots> = map (\<lambda>(name, data). cell data r) element"
    by (simp only: map_nth)
  finally show ?thesis
    by (simp add: row_out_def len row_cells_def)
qed

subsection \<open>A writable document is laid out as the format says\<close>

lemma write_element_payload_ok:
  assumes "writable_element h element"
  shows "write_element_payload h (name, element) = (element_payload (name, element), None)"
proof -
  obtain first_name first others where e: "element = (first_name, first) # others"
    using assms by (cases element) (auto simp: writable_element_def)
  have sz: "size_at first 0 = Inr (element_rows element)"
    using assms e by (simp add: writable_element_def size_at_def element_rows_def)
  have nr: "element_rows element mod 2 ^ 32 = element_rows element"
    using assms by (simp add: writable_element_def)
  have cols: "list_all (\<lambda>(name, data). writable_column h (element_rows element) data) element"
    using assms by (simp add: writable_element_def)
  then have sup: "list_all (\<lambda>(name, data). supported (scalar_type data)) element"
    by (auto simp: list_all_iff writable_column_def)
  let ?bufs = "map (\<lambda>(property_name, data). data_ptr data) element"
  have len: "length (src_ptrs (columns_of element)) = length element"
    by (simp add: columns_of_def)
  have bnd: "\<forall>j<length element. src_ptrs (columns_of element) ! j
        + element_rows element * cell_width h (columns_of element) j \<le> length (?bufs ! j)"
  proof (intro allI impI)
    fix j assume j: "j < length element"
    obtain pn data where ej: "element ! j = (pn, data)" by (cases "element ! j")
    have "element ! j \<in> set element" using j by simp
    with cols ej have w: "writable_column h (element_rows element) (snd (element ! j))"
      by (auto simp: list_all_iff)
    have p0: "src_ptrs (columns_of element) ! j = 0"
      using j by (simp add: columns_of_def)
    show "src_ptrs (columns_of element) ! j
        + element_rows element * cell_width h (columns_of element) j \<le> length (?bufs ! j)"
      using w j ej by (simp add: p0 cell_width_columns_of [OF j w] writable_column_def)
  qed
  have rows_out: "write_rows h ?bufs (length element) (columns_of element) (element_rows element)
     = (concat (map (row_out h ?bufs (columns_of element)) [0..<element_rows element]),
        Inr ((columns_of element)\<lparr>src_ptrs := after_rows h (columns_of element) (element_rows element)\<rparr>))"
    by (rule write_rows_layout [OF len bnd])
  have ro: "row_out h ?bufs (columns_of element) = row_cells element"
    by (rule ext) (rule row_out_columns_of [OF cols])
  have fill: "fill_columns element 0
      \<lparr>src_ptrs = replicate (length element) 0, strides = replicate (length element) 0,
       is_list = replicate (length element) CHR 0x00,
       list_sizes = replicate (length element) CHR 0x00\<rparr> = Inr (columns_of element)"
    unfolding columns_of_def by (rule fill_columns_init [OF sup])
  have rows_cells: "write_rows h ?bufs (length element) (columns_of element) (element_rows element)
     = (concat (map (row_cells element) [0..<element_rows element]),
        Inr ((columns_of element)\<lparr>src_ptrs := after_rows h (columns_of element) (element_rows element)\<rparr>))"
    using rows_out unfolding ro .
  have "write_element_payload h (name, element) =
     (concat (map (row_cells element) [0..<element_rows element]), None)"
    unfolding write_element_payload_def prod.case Let_def fill
    using sz nr rows_cells unfolding e by simp
  then show ?thesis
    by (simp add: element_payload_def)
qed

lemma write_ply_stream_layout:
  assumes "writable h doc"
  shows "write_ply_stream h doc = (ply_layout h doc, None)"
proof -
  have hd: "for_each write_element_header doc = (concat (map element_lines doc), None)"
  proof (rule for_each_ok)
    fix x assume "x \<in> set doc"
    with assms have "writable_element h (snd x)"
      by (auto simp: writable_def list_all_iff)
    then show "write_element_header x = (element_lines x, None)"
      using write_element_header_ok [of h "snd x" "fst x"] by simp
  qed
  have pl: "for_each (write_element_payload h) doc = (concat (map element_payload doc), None)"
  proof (rule for_each_ok)
    fix x assume "x \<in> set doc"
    with assms have "writable_element h (snd x)"
      by (auto simp: writable_def list_all_iff)
    then show "write_element_payload h x = (element_payload x, None)"
      using write_element_payload_ok [of h "snd x" "fst x"] by simp
  qed
  show ?thesis
    by (simp add: write_ply_stream_def hd pl ply_layout_def format_line_def is_big_endian_def
        uint32_bytes_def Let_def)
qed

lemma write_ply_layout:
  assumes "writable h doc"
  shows "write_ply h fs path doc = (Inr True, ofstream_written fs path (ply_layout h doc))"
  by (simp add: write_ply_def write_ply_stream_layout [OF assms])

subsection \<open>The property loop of the reader\<close>

lemma sorted_distinct_adj_distinct:
  fixes xs :: "'a::linorder list"
  shows "sorted xs \<Longrightarrow> distinct_adj xs \<Longrightarrow> distinct xs"
proof (induction xs)
  case Nil
  then show ?case by simp
next
  case (Cons x xs)
  show ?case
  proof (cases xs)
    case Nil
    then show ?thesis by simp
  next
    case (Cons y ys)
    from Cons.prems have d: "distinct xs" by (intro Cons.IH) (simp_all add: Cons)
    have xy: "x \<noteq> y" "x \<le> y" using Cons.prems by (simp_all add: Cons)
    have "x \<notin> set ys"
    proof
      assume "x \<in> set ys"
      then have "y \<le> x" using Cons.prems(1) by (simp add: Cons)
      with xy show False by simp
    qed
    with xy d show ?thesis by (simp add: Cons)
  qed
qed

lemma distinct_remdups_adj_sorted:
  fixes xs :: "'a::linorder list"
  shows "sorted xs \<Longrightarrow> distinct (remdups_adj xs)"
  by (intro sorted_distinct_adj_distinct) simp_all

lemma sort_Nil_iff: "(sort xs = []) = (xs = [])"
  by (metis length_sort length_0_conv)

lemma sorted_hd_Min:
  fixes xs :: "'a::linorder list"
  assumes "sorted xs" "xs \<noteq> []"
  shows "xs ! 0 = Min (set xs)"
proof -
  obtain y ys where xs: "xs = y # ys" using assms(2) by (cases xs) auto
  have "Min (set xs) = y"
    using assms(1) unfolding xs by (intro Min_eqI) auto
  then show ?thesis by (simp add: xs)
qed

lemma sorted_last_Max:
  fixes xs :: "'a::linorder list"
  assumes "sorted xs" "xs \<noteq> []"
  shows "xs ! (length xs - 1) = Max (set xs)"
proof -
  have l: "xs ! (length xs - 1) = last xs"
    using assms(2) by (simp add: last_conv_nth)
  have "Max (set xs) = last xs"
  proof (rule Max_eqI)
    fix y assume "y \<in> set xs"
    then obtain i where i: "i < length xs" "xs ! i = y" by (auto simp: in_set_conv_nth)
    then have "xs ! i \<le> xs ! (length xs - 1)"
      using assms(1) by (intro sorted_nth_mono) auto
    then show "y \<le> last xs" using i l by simp
  qed (use assms(2) in auto)
  then show ?thesis using l by simp
qed

lemma rowcounts_facts:
  fixes rc :: "32 word list"
  defines "rowcounts \<equiv> remdups_adj (sort rc)"
  shows "length rowcounts = card (set rc)"
    and "rc \<noteq> [] \<Longrightarrow> rowcounts ! 0 = Min (set rc)"
    and "rc \<noteq> [] \<Longrightarrow> rowcounts ! (length rowcounts - 1) = Max (set rc)"
    and "(rowcounts = []) = (rc = [])"
proof -
  have s: "sorted rowcounts" and d: "distinct rowcounts" and e: "set rowcounts = set rc"
    by (simp_all add: rowcounts_def distinct_remdups_adj_sorted)
  show "length rowcounts = card (set rc)"
    using d e by (metis distinct_card)
  show n: "(rowcounts = []) = (rc = [])"
    by (simp add: rowcounts_def sort_Nil_iff)
  show "rc \<noteq> [] \<Longrightarrow> rowcounts ! 0 = Min (set rc)"
    using sorted_hd_Min [OF s] n e by simp
  show "rc \<noteq> [] \<Longrightarrow> rowcounts ! (length rowcounts - 1) = Max (set rc)"
    using sorted_last_Max [OF s] n e by simp
qed

lemma get_torch_dtype_ok: "t \<noteq> PLY_None \<Longrightarrow> \<exists>s. get_torch_dtype t = Inr s \<and> supported s"
  by (cases t) (simp_all add: get_torch_dtype_def ply_to_torch_dtype_def supported_def)

lemma read_property_jagged:
  assumes "countType property \<noteq> PLY_None" and "prop_type property \<noteq> PLY_None"
    and "a \<in> set (rowCount property)" "b \<in> set (rowCount property)" "a \<noteq> b"
  shows "read_property N property = Inl (runtime_error
      (varying_rowcount (prop_name property) (Min (set (rowCount property))) (Max (set (rowCount property)))))"
proof -
  have ne: "rowCount property \<noteq> []" using assms(3) by auto
  have "card {a, b} \<le> card (set (rowCount property))"
    using assms(3,4) by (intro card_mono) auto
  then have c: "card (set (rowCount property)) \<noteq> 1"
    using assms(5) by simp
  obtain s where s: "get_torch_dtype (prop_type property) = Inr s"
    using get_torch_dtype_ok [OF assms(2)] by blast
  have "remdups_adj (sort (rowCount property)) ! (length (remdups_adj (sort (rowCount property))) - 1)
       = Max (set (rowCount property))"
    using ne by (rule rowcounts_facts(3))
  then show ?thesis
    using assms(1) c ne
    by (simp add: read_property_def s Let_def rowcounts_facts(1,2,4) sort_Nil_iff)
qed

lemma read_property_uniform:
  assumes "countType property \<noteq> PLY_None" and "prop_type property \<noteq> PLY_None"
    and "set (rowCount property) = {L}"
  shows "\<exists>s. get_torch_dtype (prop_type property) = Inr s \<and> supported s \<and>
     read_property N property =
       Inr \<lparr>sizes = [unat N, unat L], scalar_type = s, device = kCPU, data_ptr = prop_values property\<rparr>"
proof -
  have ne: "rowCount property \<noteq> []" using assms(3) by auto
  obtain s where s: "get_torch_dtype (prop_type property) = Inr s" "supported s"
    using get_torch_dtype_ok [OF assms(2)] by blast
  show ?thesis
    using assms(1) ne assms(3) s
    by (simp add: read_property_def Let_def rowcounts_facts sort_Nil_iff)
qed

lemma readable_read_property:
  assumes "readable q"
  shows "\<exists>t. read_property N q = Inr t"
proof -
  obtain s where s: "get_torch_dtype (prop_type q) = Inr s"
    using assms get_torch_dtype_ok [of "prop_type q"] by (auto simp: readable_def)
  show ?thesis
  proof (cases "countType q = PLY_None")
    case True
    then show ?thesis by (simp add: read_property_def s)
  next
    case False
    with assms have c: "card (set (rowCount q)) = 1" by (simp add: readable_def)
    then have "rowCount q \<noteq> []" by auto
    with c False show ?thesis
      by (simp add: read_property_def s Let_def rowcounts_facts sort_Nil_iff)
  qed
qed

lemma read_properties_fail:
  assumes "list_all readable pre" and "read_property N p = Inl e"
  shows "read_properties place N (pre @ p # post) d = Inl e"
  using assms
proof (induction pre arbitrary: d)
  case Nil
  then show ?case by simp
next
  case (Cons q pre)
  then obtain t where "read_property N q = Inr t"
    using readable_read_property [of q N] by auto
  with Cons show ?case by simp
qed

lemma read_properties_ok:
  assumes "list_all readable ps"
  shows "\<exists>d'. read_properties place N ps d = Inr d'"
  using assms
proof (induction ps arbitrary: d)
  case Nil
  then show ?case by simp
next
  case (Cons q ps)
  then obtain t where "read_property N q = Inr t"
    using readable_read_property [of q N] by auto
  with Cons show ?case by simp
qed

lemma read_ply_element_ok:
  assumes "k < num_elements reader" and "list_all readable (properties (m_elements reader ! k))"
  shows "\<exists>r. read_ply_element place reader k = Inr r"
  using assms read_properties_ok [of "properties (m_elements reader ! k)" place "count (m_elements reader ! k)" "[]"]
  by (auto simp: read_ply_element_def Let_def)

lemma read_ply_loop_step:
  "i < num_elements reader \<Longrightarrow> read_ply_loop place reader i result =
       (case read_ply_element place reader i of
          Inl e \<Rightarrow> Inl e
        | Inr (el_name, element) \<Rightarrow>
            read_ply_loop place reader (Suc i) (um_assign place el_name element result))"
  by (subst read_ply_loop.simps) simp


lemma read_ply_loop_fail:
  assumes "k < num_elements reader" and "read_ply_element place reader k = Inl e"
    and "\<forall>j<k. \<exists>r. read_ply_element place reader j = Inr r" and "i \<le> k"
  shows "read_ply_loop place reader i result = Inl e"
  using assms(4)
proof (induction "k - i" arbitrary: i result)
  case 0
  then have "i = k" by simp
  then show ?case using assms(1,2) by (simp add: read_ply_loop_step)
next
  case (Suc n)
  then have lt: "i < k" by simp
  then obtain r where r: "read_ply_element place reader i = Inr r"
    using assms(3) by blast
  obtain el_name element where rr: "r = (el_name, element)" by (cases r)
  have "read_ply_loop place reader (Suc i) (um_assign place el_name element result) = Inl e"
    using Suc lt by (intro Suc.hyps(1)) simp_all
  then show ?case
    using lt assms(1) by (simp add: read_ply_loop_step r rr)
qed

lemma read_properties_append:
  "read_properties place N (xs @ ys) d =
     (case read_properties place N xs d of Inl e \<Rightarrow> Inl e | Inr d1 \<Rightarrow> read_properties place N ys d1)"
  by (induction xs arbitrary: d) (simp_all split: sum.splits)

lemma read_properties_other:
  assumes "read_properties place N ps d = Inr d'" and "name \<notin> prop_name ` set ps"
  shows "map_of d' name = map_of d name"
  using assms
  by (induction ps arbitrary: d) (auto simp: map_of_um_assign split: sum.splits)

lemma read_properties_lookup:
  assumes "list_all readable pre" and "list_all readable post" and "read_property N p = Inr t"
    and "prop_name p \<notin> prop_name ` set post"
  shows "\<exists>d'. read_properties place N (pre @ p # post) d = Inr d' \<and> map_of d' (prop_name p) = Some t"
proof -
  obtain d1 where d1: "read_properties place N pre d = Inr d1"
    using read_properties_ok [OF assms(1)] by blast
  obtain d' where d': "read_properties place N post (um_assign place (prop_name p) t d1) = Inr d'"
    using read_properties_ok [OF assms(2)] by blast
  have "map_of d' (prop_name p) = map_of (um_assign place (prop_name p) t d1) (prop_name p)"
    by (rule read_properties_other [OF d' assms(4)])
  then show ?thesis
    by (simp add: read_properties_append d1 assms(3) d' map_of_um_assign)
qed

lemma readable_vertex_x: "list_all readable (properties vertex_x)"
  by (simp add: vertex_x_def readable_def)

lemma read_ply_first_jagged:
  assumes "countType property \<noteq> PLY_None" and "prop_type property \<noteq> PLY_None"
    and "valid reader" and "k < num_elements reader"
    and "properties (m_elements reader ! k) = pre @ property # post"
    and "list_all readable pre"
    and "\<forall>j<k. list_all readable (properties (m_elements reader ! j))"
  shows "((\<exists>a\<in>set (rowCount property). \<exists>b\<in>set (rowCount property). a \<noteq> b) \<longrightarrow>
           read_property (count (m_elements reader ! k)) property =
             Inl (runtime_error (varying_rowcount (prop_name property)
                   (Min (set (rowCount property))) (Max (set (rowCount property)))))
           \<and> read_ply place reader path =
             Inl (runtime_error (varying_rowcount (prop_name property)
                   (Min (set (rowCount property))) (Max (set (rowCount property))))))
    \<and> (\<forall>L. set (rowCount property) = {L} \<longrightarrow>
          (\<exists>s. get_torch_dtype (prop_type property) = Inr s
             \<and> read_property (count (m_elements reader ! k)) property =
                 Inr \<lparr>sizes = [unat (count (m_elements reader ! k)), unat L], scalar_type = s,
                      device = kCPU, data_ptr = prop_values property\<rparr>
             \<and> (list_all readable post \<and> prop_name property \<notin> prop_name ` set post \<longrightarrow>
                  (\<exists>props_dict. read_ply_element place reader k =
                       Inr (elem_name (m_elements reader ! k), props_dict)
                     \<and> map_of props_dict (prop_name property) =
                         Some \<lparr>sizes = [unat (count (m_elements reader ! k)), unat L], scalar_type = s,
                               device = kCPU, data_ptr = prop_values property\<rparr>))))"
proof (intro conjI impI allI)
  let ?N = "count (m_elements reader ! k)"
  let ?msg = "varying_rowcount (prop_name property)
                   (Min (set (rowCount property))) (Max (set (rowCount property)))"
  assume "\<exists>a\<in>set (rowCount property). \<exists>b\<in>set (rowCount property). a \<noteq> b"
  then obtain a b where ab: "a \<in> set (rowCount property)" "b \<in> set (rowCount property)" "a \<noteq> b"
    by blast
  show p: "read_property ?N property = Inl (runtime_error ?msg)"
    by (rule read_property_jagged [OF assms(1,2) ab])
  have e: "read_ply_element place reader k = Inl (runtime_error ?msg)"
    using assms(4) read_properties_fail [OF assms(6) p]
    by (simp add: read_ply_element_def Let_def assms(5))
  have b: "\<forall>j<k. \<exists>r. read_ply_element place reader j = Inr r"
  proof (intro allI impI)
    fix j assume j: "j < k"
    then have "j < num_elements reader" using assms(4) by simp
    moreover have "list_all readable (properties (m_elements reader ! j))" using assms(7) j by simp
    ultimately show "\<exists>r. read_ply_element place reader j = Inr r"
      by (rule read_ply_element_ok)
  qed
  show "read_ply place reader path = Inl (runtime_error ?msg)"
    using assms(3) read_ply_loop_fail [OF assms(4) e b, of 0 "[]"]
    by (simp add: read_ply_def)
next
  fix L
  let ?N = "count (m_elements reader ! k)"
  assume L: "set (rowCount property) = {L}"
  from read_property_uniform [OF assms(1,2) L, of ?N]
  obtain s where s: "get_torch_dtype (prop_type property) = Inr s"
    and r: "read_property ?N property =
       Inr \<lparr>sizes = [unat ?N, unat L], scalar_type = s, device = kCPU, data_ptr = prop_values property\<rparr>"
    by blast
  have "list_all readable post \<and> prop_name property \<notin> prop_name ` set post \<longrightarrow>
       (\<exists>props_dict. read_ply_element place reader k = Inr (elem_name (m_elements reader ! k), props_dict)
          \<and> map_of props_dict (prop_name property) =
               Some \<lparr>sizes = [unat ?N, unat L], scalar_type = s, device = kCPU, data_ptr = prop_values property\<rparr>)"
  proof
    assume a: "list_all readable post \<and> prop_name property \<notin> prop_name ` set post"
    from read_properties_lookup [OF assms(6) _ r, of post place "[]"] a
    obtain d' where "read_properties place ?N (pre @ property # post) [] = Inr d'"
      and "map_of d' (prop_name property) =
         Some \<lparr>sizes = [unat ?N, unat L], scalar_type = s, device = kCPU, data_ptr = prop_values property\<rparr>"
      by blast
    then show "\<exists>props_dict. read_ply_element place reader k = Inr (elem_name (m_elements reader ! k), props_dict)
          \<and> map_of props_dict (prop_name property) =
               Some \<lparr>sizes = [unat ?N, unat L], scalar_type = s, device = kCPU, data_ptr = prop_values property\<rparr>"
      using assms(4) by (simp add: read_ply_element_def Let_def assms(5))
  qed
  with s r show "\<exists>s. get_torch_dtype (prop_type property) = Inr s
             \<and> read_property ?N property =
                 Inr \<lparr>sizes = [unat ?N, unat L], scalar_type = s, device = kCPU, data_ptr = prop_values property\<rparr>
             \<and> (list_all readable post \<and> prop_name property \<notin> prop_name ` set post \<longrightarrow>
                  (\<exists>props_dict. read_ply_element place reader k =
                       Inr (elem_name (m_elements reader ! k), props_dict)
                     \<and> map_of props_dict (prop_name property) =
                         Some \<lparr>sizes = [unat ?N, unat L], scalar_type = s,
                               device = kCPU, data_ptr = prop_values property\<rparr>))"
    by blast
qed

subsection \<open>The dense float reader\<close>

lemma sint_of_nat_64:
  assumes "n < 2 ^ 63"
  shows "sint (of_nat n :: 64 word) = int n" and "sint (- (of_nat n :: 64 word)) = - int n"
proof -
  have r: "- (2 ^ 63) \<le> int n" "int n < 2 ^ 63" "- (2 ^ 63) \<le> - int n" "- int n < 2 ^ 63"
    using assms by simp_all
  have "sint (word_of_int (int n) :: 64 word) = signed_take_bit (LENGTH(64) - 1) (int n)"
    by (rule sint_sbintrunc')
  also have "\<dots> = int n"
    using r(1,2) by (simp add: signed_take_bit_int_eq_self)
  finally show "sint (of_nat n :: 64 word) = int n" by simp
  have "sint (word_of_int (- int n) :: 64 word) = signed_take_bit (LENGTH(64) - 1) (- int n)"
    by (rule sint_sbintrunc')
  also have "\<dots> = - int n"
    using r(3,4) by (simp add: signed_take_bit_int_eq_self)
  finally show "sint (- (of_nat n :: 64 word)) = - int n" by simp
qed

lemma data_size_of_nat:
  "(ucast (c :: 32 word) * of_nat p * 4 :: 64 word) = of_nat (4 * unat c * p)"
proof -
  have "(ucast c :: 64 word) = of_nat (unat c)" by simp
  then show ?thesis by (simp only: of_nat_mult of_nat_numeral mult_ac)
qed

lemma seek_read_tail:
  assumes "n \<le> length bytes" and "length bytes < 2 ^ 63"
  shows "(if 0 \<le> int (length bytes) + sint (- (of_nat n :: 64 word))
             \<and> int (length bytes) + sint (- (of_nat n :: 64 word)) \<le> int (length bytes)
             \<and> 0 \<le> sint (of_nat n :: 64 word)
          then take (nat (sint (of_nat n :: 64 word)))
                 (drop (nat (int (length bytes) + sint (- (of_nat n :: 64 word)))) bytes)
          else [])
         = drop (length bytes - n) bytes"
proof -
  have n: "n < 2 ^ 63" using assms by (rule order.strict_trans1)
  have "nat (int (length bytes) - int n) = length bytes - n"
    using assms(1) by simp
  then show ?thesis
    using assms(1) by (simp add: sint_of_nat_64 [OF n] Let_def)
qed

lemma seek_read_short:
  assumes "length bytes < n" and "n < 2 ^ 63"
  shows "(if 0 \<le> int (length bytes) + sint (- (of_nat n :: 64 word))
             \<and> int (length bytes) + sint (- (of_nat n :: 64 word)) \<le> int (length bytes)
             \<and> 0 \<le> sint (of_nat n :: 64 word)
          then take (nat (sint (of_nat n :: 64 word)))
                 (drop (nat (int (length bytes) + sint (- (of_nat n :: 64 word)))) bytes)
          else [])
         = []"
  using assms(1) by (simp add: sint_of_nat_64 [OF assms(2)] Let_def)

lemma read_float_ply_reads_tail:
  assumes "valid reader" and "num_elements reader = 1" and "file_type reader = Binary"
    and "4 * unat (count (m_elements reader ! 0)) * length (properties (m_elements reader ! 0)) \<le> length bytes"
    and "length bytes < 2 ^ 63"
  shows "read_float_ply reader (Some bytes) uninit path =
    Inr (\<lparr>sizes = [unat (count (m_elements reader ! 0)), length (properties (m_elements reader ! 0))],
          scalar_type = kFloat32, device = kCPU,
          data_ptr = drop (length bytes - 4 * unat (count (m_elements reader ! 0))
                             * length (properties (m_elements reader ! 0))) bytes\<rparr>,
         map prop_name (properties (m_elements reader ! 0)))"
proof -
  define n where "n = 4 * unat (count (m_elements reader ! 0)) * length (properties (m_elements reader ! 0))"
  have ds: "(ucast (count (m_elements reader ! 0)) * of_nat (length (properties (m_elements reader ! 0))) * 4 :: 64 word)
      = of_nat n"
    unfolding n_def by (rule data_size_of_nat)
  have le: "n \<le> length bytes" using assms(4) by (simp only: n_def)
  have ln: "length (drop (length bytes - n) bytes) = n"
    using le by simp
  show ?thesis
    unfolding read_float_ply_def Let_def ds n_def [symmetric] option.case seek_read_tail [OF le assms(5)]
    using assms(1,2,3) le by (simp add: ln)
qed

lemma read_float_ply_short_file:
  assumes "valid reader" and "num_elements reader = 1" and "file_type reader = Binary"
    and "length bytes < 4 * unat (count (m_elements reader ! 0)) * length (properties (m_elements reader ! 0))"
    and "4 * unat (count (m_elements reader ! 0)) * length (properties (m_elements reader ! 0)) < 2 ^ 63"
  shows "read_float_ply reader (Some bytes) uninit path =
    Inr (\<lparr>sizes = [unat (count (m_elements reader ! 0)), length (properties (m_elements reader ! 0))],
          scalar_type = kFloat32, device = kCPU,
          data_ptr = take (4 * unat (count (m_elements reader ! 0))
                             * length (properties (m_elements reader ! 0))) uninit\<rparr>,
         map prop_name (properties (m_elements reader ! 0)))"
proof -
  define n where "n = 4 * unat (count (m_elements reader ! 0)) * length (properties (m_elements reader ! 0))"
  have ds: "(ucast (count (m_elements reader ! 0)) * of_nat (length (properties (m_elements reader ! 0))) * 4 :: 64 word)
      = of_nat n"
    unfolding n_def by (rule data_size_of_nat)
  have lt: "length bytes < n" using assms(4) by (simp only: n_def)
  have b: "n < 2 ^ 63" using assms(5) by (simp only: n_def)
  show ?thesis
    unfolding read_float_ply_def Let_def ds n_def [symmetric] option.case seek_read_short [OF lt b]
    using assms(1,2,3) by simp
qed

subsection \<open>The read-direction type mapping\<close>

text \<open>
  C8. The read-direction mapping \<open>get_torch_dtype\<close> sends both \<open>Char\<close> and \<open>UChar\<close> to
  the unsigned byte type \<open>kByte\<close>, so it is not injective; it returns a scalar type for
  each of the eight format types of the table, and it throws
  "unknown PLYProperty dtype" for every format type outside the table (the only such
  member of the enumeration is \<open>None\<close>).
\<close>

theorem get_torch_dtype_collapse:
  "get_torch_dtype PLY_Char = Inr kByte \<and> get_torch_dtype PLY_UChar = Inr kByte
   \<and> PLY_Char \<noteq> PLY_UChar \<and> \<not> inj_on get_torch_dtype (fst ` set ply_to_torch_dtype)
   \<and> (\<forall>t. t \<in> fst ` set ply_to_torch_dtype \<longleftrightarrow> (\<exists>s. get_torch_dtype t = Inr s))
   \<and> (\<forall>t. t \<notin> fst ` set ply_to_torch_dtype \<longleftrightarrow>
         get_torch_dtype t = Inl (runtime_error ''unknown PLYProperty dtype''))
   \<and> fst ` set ply_to_torch_dtype =
       {PLY_Char, PLY_UChar, PLY_Short, PLY_UShort, PLY_Int, PLY_UInt, PLY_Float, PLY_Double}"
proof -
  have dom: "fst ` set ply_to_torch_dtype =
       {PLY_Char, PLY_UChar, PLY_Short, PLY_UShort, PLY_Int, PLY_UInt, PLY_Float, PLY_Double}"
    by (auto simp: ply_to_torch_dtype_def)
  have c: "get_torch_dtype PLY_Char = Inr kByte" and u: "get_torch_dtype PLY_UChar = Inr kByte"
    by (simp_all add: get_torch_dtype_def ply_to_torch_dtype_def)
  have ninj: "\<not> inj_on get_torch_dtype (fst ` set ply_to_torch_dtype)"
  proof
    assume "inj_on get_torch_dtype (fst ` set ply_to_torch_dtype)"
    moreover have "PLY_Char \<in> fst ` set ply_to_torch_dtype" "PLY_UChar \<in> fst ` set ply_to_torch_dtype"
      by (simp_all add: dom)
    ultimately have "PLY_Char = PLY_UChar"
      using c u by (intro inj_onD [of get_torch_dtype]) simp_all
    then show False by simp
  qed
  have tot: "t \<in> fst ` set ply_to_torch_dtype \<longleftrightarrow> (\<exists>s. get_torch_dtype t = Inr s)" for t
    unfolding dom by (cases t) (simp_all add: get_torch_dtype_def ply_to_torch_dtype_def)
  have fail: "t \<notin> fst ` set ply_to_torch_dtype \<longleftrightarrow>
         get_torch_dtype t = Inl (runtime_error ''unknown PLYProperty dtype'')" for t
    unfolding dom by (cases t) (simp_all add: get_torch_dtype_def ply_to_torch_dtype_def)
  show ?thesis
    using c u ninj tot fail dom by simp
qed

subsection \<open>The dense float writer\<close>

text \<open>
  C5. \<open>write_float_ply\<close> checks four preconditions: the tensor is 2-dimensional, its
  second dimension equals the number of property names, it is on the CPU, and its scalar
  type is Float32. A call that violates any of them fails. When the file could be
  opened, the message is that of the first violated precondition, and the four messages
  are pairwise distinct. When all four hold, none of the four errors is raised, and the
  call succeeds when the file could be opened and the tensor holds its \<open>4 * N * P\<close>
  bytes.
\<close>

theorem write_float_ply_preconditions:
  "(ndimension data \<noteq> 2 \<or> sizes data ! 1 \<noteq> length props \<or> device data \<noteq> kCPU \<or> scalar_type data \<noteq> kFloat32
      \<longrightarrow> (\<exists>m. fst (write_float_ply fs path data props) = Inl (runtime_error m)))
   \<and> (creatable fs path \<and> ndimension data \<noteq> 2 \<longrightarrow>
        fst (write_float_ply fs path data props) = Inl (runtime_error ''Data tensor must be 2-dimensional''))
   \<and> (creatable fs path \<and> ndimension data = 2 \<and> sizes data ! 1 \<noteq> length props \<longrightarrow>
        fst (write_float_ply fs path data props) = Inl (runtime_error ''tensor.size(1) != len(props)''))
   \<and> (creatable fs path \<and> ndimension data = 2 \<and> sizes data ! 1 = length props \<and> device data \<noteq> kCPU \<longrightarrow>
        fst (write_float_ply fs path data props) = Inl (runtime_error ''data must be on CPU''))
   \<and> (creatable fs path \<and> ndimension data = 2 \<and> sizes data ! 1 = length props \<and> device data = kCPU
        \<and> scalar_type data \<noteq> kFloat32 \<longrightarrow>
        fst (write_float_ply fs path data props) = Inl (runtime_error ''data dtype must be float32''))
   \<and> distinct [''Data tensor must be 2-dimensional'', ''tensor.size(1) != len(props)'',
                ''data must be on CPU'', ''data dtype must be float32'']
   \<and> (ndimension data = 2 \<and> sizes data ! 1 = length props \<and> device data = kCPU \<and> scalar_type data = kFloat32 \<longrightarrow>
        fst (write_float_ply fs path data props) \<notin>
          {Inl (runtime_error ''Data tensor must be 2-dimensional''), Inl (runtime_error ''tensor.size(1) != len(props)''),
           Inl (runtime_error ''data must be on CPU''), Inl (runtime_error ''data dtype must be float32'')}
        \<and> (creatable fs path \<and> 4 * (sizes data ! 0) * (sizes data ! 1) \<le> length (data_ptr data) \<longrightarrow>
             fst (write_float_ply fs path data props) = Inr ()))"
  by (auto simp: write_float_ply_def ofstream_open_def read_bytes_def Let_def split: option.splits)

theorem write_float_ply_preconditions_witness:
  "fst (write_float_ply fs_writable ''out.ply'' (ones_2x1\<lparr>sizes := [2]\<rparr>) [''x''])
     = Inl (runtime_error ''Data tensor must be 2-dimensional'')
   \<and> fst (write_float_ply fs_writable ''out.ply'' ones_2x1 [''x'', ''y''])
     = Inl (runtime_error ''tensor.size(1) != len(props)'')
   \<and> fst (write_float_ply fs_writable ''out.ply'' (ones_2x1\<lparr>device := kCUDA\<rparr>) [''x''])
     = Inl (runtime_error ''data must be on CPU'')
   \<and> fst (write_float_ply fs_writable ''out.ply'' (ones_2x1\<lparr>scalar_type := kFloat64\<rparr>) [''x''])
     = Inl (runtime_error ''data dtype must be float32'')
   \<and> fst (write_float_ply fs_writable ''out.ply'' ones_2x1 [''x'']) = Inr ()
   \<and> (\<exists>m. fst (write_float_ply fs_readonly ''out.ply'' (ones_2x1\<lparr>sizes := [2]\<rparr>) [''x''])
     = Inl (runtime_error m))"
  using write_float_ply_preconditions [of "ones_2x1\<lparr>sizes := [2]\<rparr>" "[''x'']" fs_writable "''out.ply''"]
        write_float_ply_preconditions [of ones_2x1 "[''x'', ''y'']" fs_writable "''out.ply''"]
        write_float_ply_preconditions [of "ones_2x1\<lparr>device := kCUDA\<rparr>" "[''x'']" fs_writable "''out.ply''"]
        write_float_ply_preconditions [of "ones_2x1\<lparr>scalar_type := kFloat64\<rparr>" "[''x'']" fs_writable "''out.ply''"]
        write_float_ply_preconditions [of ones_2x1 "[''x'']" fs_writable "''out.ply''"]
        write_float_ply_preconditions [of "ones_2x1\<lparr>sizes := [2]\<rparr>" "[''x'']" fs_readonly "''out.ply''"]
  by (simp add: fs_writable_def fs_readonly_def ones_2x1_def ndimension_def)

text \<open>
  C9. \<open>write_float_ply\<close> opens the destination, creating or truncating it, before it
  checks its preconditions. So a call that violates a precondition on a path that can
  be created throws and leaves an empty file at the path, whatever was there before.
\<close>

theorem write_float_ply_leaves_empty_file:
  assumes "creatable fs path"
    and "ndimension data \<noteq> 2 \<or> sizes data ! 1 \<noteq> length props \<or> device data \<noteq> kCPU
         \<or> scalar_type data \<noteq> kFloat32"
  shows "\<exists>m. write_float_ply fs path data props
           = (Inl (runtime_error m), fs\<lparr>files := (files fs)(path \<mapsto> [])\<rparr>)"
  using assms by (auto simp: write_float_ply_def ofstream_open_def)

theorem write_float_ply_leaves_empty_file_witness:
  "creatable fs_existing ''out.ply'' \<and> ndimension (ones_2x1\<lparr>sizes := [2]\<rparr>) \<noteq> 2
   \<and> files fs_existing ''out.ply'' = Some ''old contents''
   \<and> (\<exists>m. fst (write_float_ply fs_existing ''out.ply'' (ones_2x1\<lparr>sizes := [2]\<rparr>) [''x''])
           = Inl (runtime_error m))
   \<and> files (snd (write_float_ply fs_existing ''out.ply'' (ones_2x1\<lparr>sizes := [2]\<rparr>) [''x'']))
       ''out.ply'' = Some []"
proof -
  have c: "creatable fs_existing ''out.ply''" by (simp add: fs_existing_def)
  have v: "ndimension (ones_2x1\<lparr>sizes := [2]\<rparr>) \<noteq> 2" by (simp add: ndimension_def)
  from write_float_ply_leaves_empty_file [OF c, of "ones_2x1\<lparr>sizes := [2]\<rparr>" "[''x'']"] v
  obtain m where "write_float_ply fs_existing ''out.ply'' (ones_2x1\<lparr>sizes := [2]\<rparr>) [''x'']
      = (Inl (runtime_error m), fs_existing\<lparr>files := (files fs_existing)(''out.ply'' \<mapsto> [])\<rparr>)"
    by blast
  then show ?thesis using c v by (simp add: fs_existing_def)
qed

subsection \<open>Evaluating the examples\<close>


lemmas writable_eval =
  writable_def writable_element_def writable_column_def
  ndimension_def element_rows_def supported_def cell_bytes_def width_def byte_width_def
  torch_dtype_to_size_def



subsection \<open>The generic writer\<close>




lemma ofstream_written_unopened: "\<not> creatable fs path \<Longrightarrow> ofstream_written fs path out = fs"
  by (simp add: ofstream_written_def ofstream_open_def)

lemma ofstream_written_opened:
  "creatable fs path \<Longrightarrow> ofstream_written fs path out = fs\<lparr>files := (files fs)(path \<mapsto> out)\<rparr>"
  by (simp add: ofstream_written_def ofstream_open_def)

lemma writable_doc_x: "writable h doc_x"
  by (simp add: doc_x_def ones_2x1_def writable_eval)

lemma write_ply_stream_format:
  "\<exists>rest. fst (write_ply_stream h elements) =
     ''ply'' @ ''\<newline>'' @ (if big_endian h then ''format binary_big_endian 1.0'' else ''format binary_little_endian 1.0'') @ ''\<newline>'' @ rest"
  by (auto simp: write_ply_stream_def is_big_endian_def uint32_bytes_def Let_def split: prod.splits option.splits)

lemma write_ply_file:
  "creatable fs path \<Longrightarrow> files (snd (write_ply h fs path elements)) path = Some (fst (write_ply_stream h elements))"
  by (auto simp: write_ply_def ofstream_written_opened split: prod.splits option.splits)

text \<open>
  C4. The claim is that \<open>write_ply\<close> fails with an open error when the destination
  cannot be created. The code does not: it never looks at the state of its stream, so on
  a path that cannot be created the writes are lost, the file system is unchanged, and
  the function returns \<open>true\<close>. Its sibling \<open>write_float_ply\<close> checks
  \<open>is_open\<close> and throws on the same path.
\<close>

theorem write_ply_unopened_returns_true:
  "\<not> creatable fs_readonly ''/missing/out.ply''
   \<and> write_ply host_le fs_readonly ''/missing/out.ply'' doc_x = (Inr True, fs_readonly)
   \<and> write_float_ply fs_readonly ''/missing/out.ply'' ones_2x1 [''x''] =
       (Inl (runtime_error ''Could not create file: /missing/out.ply''), fs_readonly)"
proof -
  have c: "\<not> creatable fs_readonly ''/missing/out.ply''"
    by (simp add: fs_readonly_def)
  have w: "write_ply host_le fs_readonly ''/missing/out.ply'' doc_x = (Inr True, fs_readonly)"
    by (simp only: write_ply_layout [OF writable_doc_x] ofstream_written_unopened [OF c])
  have f: "write_float_ply fs_readonly ''/missing/out.ply'' ones_2x1 [''x''] =
       (Inl (runtime_error ''Could not create file: /missing/out.ply''), fs_readonly)"
    using c by (simp add: write_float_ply_def ofstream_open_def)
  from c w f show ?thesis by (simp only: simp_thms)
qed

text \<open>
  C7. The format line of \<open>write_ply\<close> names the byte order of the host:
  \<open>binary_big_endian\<close> on a big-endian host, \<open>binary_little_endian\<close> otherwise. The
  format line of \<open>write_float_ply\<close>, which does not depend on the host at all, is always
  \<open>binary_little_endian\<close>.
\<close>

theorem writers_format_line:
  assumes "creatable fs path"
  shows "(\<exists>rest. files (snd (write_ply h fs path elements)) path =
            Some (''ply'' @ ''\<newline>'' @ (if big_endian h then ''format binary_big_endian 1.0''
                  else ''format binary_little_endian 1.0'') @ ''\<newline>'' @ rest))
    \<and> (fst (write_float_ply fs path data props) = Inr () \<longrightarrow>
         (\<exists>rest. files (snd (write_float_ply fs path data props)) path =
            Some (''ply'' @ ''\<newline>'' @ ''format binary_little_endian 1.0'' @ ''\<newline>'' @ rest)))"
proof -
  have 1: "\<exists>rest. files (snd (write_ply h fs path elements)) path =
            Some (''ply'' @ ''\<newline>'' @ (if big_endian h then ''format binary_big_endian 1.0''
                  else ''format binary_little_endian 1.0'') @ ''\<newline>'' @ rest)"
    using write_ply_stream_format [of h elements] by (simp only: write_ply_file [OF assms]) simp
  have 2: "fst (write_float_ply fs path data props) = Inr () \<longrightarrow>
         (\<exists>rest. files (snd (write_float_ply fs path data props)) path =
            Some (''ply'' @ ''\<newline>'' @ ''format binary_little_endian 1.0'' @ ''\<newline>'' @ rest))"
    using assms
    by (auto simp: write_float_ply_def ofstream_written_def ofstream_open_def float_header_def Let_def
        split: option.splits if_splits)
  from 1 2 show ?thesis by blast
qed

theorem writers_format_line_witness:
  "creatable fs_writable ''out.ply''
   \<and> (\<exists>rest. files (snd (write_ply host_be fs_writable ''out.ply'' doc_x)) ''out.ply'' =
          Some (''ply'' @ ''\<newline>'' @ ''format binary_big_endian 1.0'' @ ''\<newline>'' @ rest))
   \<and> (\<exists>rest. files (snd (write_ply host_le fs_writable ''out.ply'' doc_x)) ''out.ply'' =
          Some (''ply'' @ ''\<newline>'' @ ''format binary_little_endian 1.0'' @ ''\<newline>'' @ rest))
   \<and> fst (write_float_ply fs_writable ''out.ply'' ones_2x1 [''x'']) = Inr ()
   \<and> (\<exists>rest. files (snd (write_float_ply fs_writable ''out.ply'' ones_2x1 [''x''])) ''out.ply'' =
          Some (''ply'' @ ''\<newline>'' @ ''format binary_little_endian 1.0'' @ ''\<newline>'' @ rest))"
proof -
  have c: "creatable fs_writable ''out.ply''" by (simp add: fs_writable_def)
  have ok: "fst (write_float_ply fs_writable ''out.ply'' ones_2x1 [''x'']) = Inr ()"
    by (simp add: write_float_ply_def fs_writable_def ofstream_open_def ones_2x1_def ndimension_def read_bytes_def)
  show ?thesis
    using c ok writers_format_line [OF c, of host_be doc_x ones_2x1 "[''x'']"]
      writers_format_line [OF c, of host_le doc_x ones_2x1 "[''x'']"]
    by (simp add: host_be_def host_le_def)
qed

subsection \<open>The generic reader\<close>

text \<open>
  C2. The claim is that \<open>read_ply\<close> fails with the jagged-list error on every file
  in which a list property has rows of at least two distinct lengths. The code attempts
  that: on \<open>reader_jagged\<close> it throws "list property 'vertex_indices' has varying
  rowcount(from 2 to 3)". But its test \<open>rowcounts.size() != 1\<close> also catches the list
  property of an element without rows, whose vector of row lengths is empty, and the
  message is then built from \<open>rowcounts[0]\<close>, an entry the vector does not have. So a
  file that declares such an element before the jagged one runs into undefined behaviour
  and never reaches the jagged-list error.
\<close>

theorem read_ply_empty_list_before_jagged:
  "valid reader_empty_then_jagged
   \<and> m_elements reader_empty_then_jagged = [patch_empty, face_jagged]
   \<and> count patch_empty = 0 \<and> map rowCount (properties patch_empty) = [[]]
   \<and> map rowCount (properties face_jagged) = [[3, 2]]
   \<and> read_ply place_back reader_empty_then_jagged ''mesh.ply'' =
       Inl (undefined_behaviour ''rowcounts[0] of an empty vector'')
   \<and> read_ply place_back reader_jagged ''mesh.ply'' =
       Inl (runtime_error (''list property '' @ [CHR 0x27] @ ''vertex_indices'' @ [CHR 0x27]
          @ '' has varying rowcount(from 2 to 3), which is not supported!''))"
proof -
  have p: "read_property 0 (hd (properties patch_empty)) =
      Inl (undefined_behaviour ''rowcounts[0] of an empty vector'')"
    by (simp add: patch_empty_def read_property_def get_torch_dtype_def ply_to_torch_dtype_def)
  have e: "read_ply_element place_back reader_empty_then_jagged 0 =
      Inl (undefined_behaviour ''rowcounts[0] of an empty vector'')"
    using p by (simp add: read_ply_element_def reader_empty_then_jagged_def num_elements_def patch_empty_def)
  have u: "read_ply place_back reader_empty_then_jagged ''mesh.ply'' =
       Inl (undefined_behaviour ''rowcounts[0] of an empty vector'')"
    using read_ply_loop_fail [of 0 reader_empty_then_jagged place_back _ 0 "[]", OF _ e]
    by (simp add: read_ply_def reader_empty_then_jagged_def num_elements_def)
  let ?pj = "hd (properties face_jagged)"
  have h1: "countType ?pj \<noteq> PLY_None" "prop_type ?pj \<noteq> PLY_None"
    by (simp_all add: face_jagged_def)
  have h2: "valid reader_jagged" "1 < num_elements reader_jagged"
    by (simp_all add: reader_jagged_def num_elements_def)
  have h3: "properties (m_elements reader_jagged ! 1) = [] @ ?pj # []"
    by (simp add: reader_jagged_def face_jagged_def)
  have h4: "list_all readable []" by simp
  have h5: "\<forall>j<1. list_all readable (properties (m_elements reader_jagged ! j))"
    by (simp add: reader_jagged_def readable_vertex_x)
  have two: "\<exists>a\<in>set (rowCount ?pj). \<exists>b\<in>set (rowCount ?pj). a \<noteq> b"
    by (rule bexI [of _ 3], rule bexI [of _ 2]) (simp_all add: face_jagged_def)
  have mm: "Min (set (rowCount ?pj)) = 2" "Max (set (rowCount ?pj)) = 3"
    by (simp_all add: face_jagged_def)
  from read_ply_first_jagged [OF h1 h2 h3 h4 h5, of place_back "''mesh.ply''"] two
  have "read_ply place_back reader_jagged ''mesh.ply'' =
     Inl (runtime_error (varying_rowcount (prop_name ?pj) (Min (set (rowCount ?pj))) (Max (set (rowCount ?pj)))))"
    by blast
  then have j: "read_ply place_back reader_jagged ''mesh.ply'' =
     Inl (runtime_error (''list property '' @ [CHR 0x27] @ ''vertex_indices'' @ [CHR 0x27]
        @ '' has varying rowcount(from 2 to 3), which is not supported!''))"
    by (simp add: mm varying_rowcount_def to_string_small digit_char_def) (simp add: face_jagged_def)
  have s: "valid reader_empty_then_jagged
   \<and> m_elements reader_empty_then_jagged = [patch_empty, face_jagged]
   \<and> count patch_empty = 0 \<and> map rowCount (properties patch_empty) = [[]]
   \<and> map rowCount (properties face_jagged) = [[3, 2]]"
    by (simp add: reader_empty_then_jagged_def patch_empty_def face_jagged_def)
  from s u j show ?thesis by (simp only: simp_thms)
qed

subsection \<open>The dense float reader\<close>

lemmas parse_eval =
  PLYReader_open_def parse_header_def parse_format_def parse_declaration_def parse_count_def
  parse_type_def digit_of_def add_property_def type_size_def Let_def

lemma open_xy: "PLYReader_open (Some file_xy) = reader_xy"
  by (simp add: file_xy_def reader_xy_def parse_eval)

lemma load_30:
  "load_rows 30 [\<lparr>prop_name = ''x'', prop_type = PLY_UChar, countType = PLY_None, rowCount = [],
                   prop_values = []\<rparr>] (replicate 30 CHR ''.'')
   = Some ([\<lparr>prop_name = ''x'', prop_type = PLY_UChar, countType = PLY_None, rowCount = [],
             prop_values = replicate 30 CHR ''.''\<rparr>], [])"
  by (simp add: eval_nat_numeral type_size_def)

lemma open_30: "PLYReader_open (Some file_30) = reader_30"
  by (simp add: file_30_def reader_30_def parse_eval load_30)

text \<open>
  C6 (as amended). \<open>read_float_ply\<close> fails with "Failed to open specified path" on a
  file the reader cannot parse, with "Invalid PLY file" on a file that does not hold exactly
  one element, and with "Unsupported PLY file encoding" on a file whose encoding is not the
  little-endian binary one. Otherwise it returns the names of the \<open>P\<close> properties in
  header order and a Float32 tensor of shape \<open>[N, P]\<close> on the CPU. When the file holds
  at least \<open>4 * N * P\<close> bytes, the tensor holds the last \<open>4 * N * P\<close> bytes of the
  file. When the file is shorter, the seek to \<open>fileSize - 4 * N * P\<close> fails, nothing is
  read, and the tensor keeps the bytes its allocation happened to hold.
\<close>

theorem read_float_ply_trailing_bytes:
  "(\<not> valid reader \<longrightarrow>
      read_float_ply reader file uninit path =
        Inl (runtime_error (''Failed to open specified path: '' @ path)))
   \<and> (valid reader \<and> num_elements reader \<noteq> 1 \<longrightarrow>
      read_float_ply reader file uninit path = Inl (runtime_error ''Invalid PLY file''))
   \<and> (valid reader \<and> num_elements reader = 1 \<and> file_type reader \<noteq> Binary \<longrightarrow>
      read_float_ply reader file uninit path = Inl (runtime_error ''Unsupported PLY file encoding''))
   \<and> (valid reader \<and> num_elements reader = 1 \<and> file_type reader = Binary
        \<and> file = Some bytes
        \<and> 4 * unat (count (m_elements reader ! 0)) * length (properties (m_elements reader ! 0))
            \<le> length bytes
        \<and> length bytes < 2 ^ 63 \<longrightarrow>
      read_float_ply reader file uninit path =
        Inr (\<lparr>sizes = [unat (count (m_elements reader ! 0)), length (properties (m_elements reader ! 0))],
              scalar_type = kFloat32, device = kCPU,
              data_ptr = drop (length bytes - 4 * unat (count (m_elements reader ! 0))
                                 * length (properties (m_elements reader ! 0))) bytes\<rparr>,
             map prop_name (properties (m_elements reader ! 0))))
   \<and> (valid reader \<and> num_elements reader = 1 \<and> file_type reader = Binary
        \<and> file = Some bytes
        \<and> length bytes
            < 4 * unat (count (m_elements reader ! 0)) * length (properties (m_elements reader ! 0))
        \<and> 4 * unat (count (m_elements reader ! 0)) * length (properties (m_elements reader ! 0))
            < 2 ^ 63 \<longrightarrow>
      read_float_ply reader file uninit path =
        Inr (\<lparr>sizes = [unat (count (m_elements reader ! 0)), length (properties (m_elements reader ! 0))],
              scalar_type = kFloat32, device = kCPU,
              data_ptr = take (4 * unat (count (m_elements reader ! 0))
                                 * length (properties (m_elements reader ! 0))) uninit\<rparr>,
             map prop_name (properties (m_elements reader ! 0))))"
proof (intro conjI impI)
  assume "\<not> valid reader"
  then show "read_float_ply reader file uninit path =
        Inl (runtime_error (''Failed to open specified path: '' @ path))"
    by (simp add: read_float_ply_def)
next
  assume "valid reader \<and> num_elements reader \<noteq> 1"
  then show "read_float_ply reader file uninit path = Inl (runtime_error ''Invalid PLY file'')"
    by (simp add: read_float_ply_def)
next
  assume "valid reader \<and> num_elements reader = 1 \<and> file_type reader \<noteq> Binary"
  then show "read_float_ply reader file uninit path = Inl (runtime_error ''Unsupported PLY file encoding'')"
    by (simp add: read_float_ply_def Let_def)
next
  assume a: "valid reader \<and> num_elements reader = 1 \<and> file_type reader = Binary
        \<and> file = Some bytes
        \<and> 4 * unat (count (m_elements reader ! 0)) * length (properties (m_elements reader ! 0))
            \<le> length bytes
        \<and> length bytes < 2 ^ 63"
  then have "read_float_ply reader (Some bytes) uninit path =
        Inr (\<lparr>sizes = [unat (count (m_elements reader ! 0)), length (properties (m_elements reader ! 0))],
              scalar_type = kFloat32, device = kCPU,
              data_ptr = drop (length bytes - 4 * unat (count (m_elements reader ! 0))
                                 * length (properties (m_elements reader ! 0))) bytes\<rparr>,
             map prop_name (properties (m_elements reader ! 0)))"
    by (intro read_float_ply_reads_tail) blast+
  with a show "read_float_ply reader file uninit path =
        Inr (\<lparr>sizes = [unat (count (m_elements reader ! 0)), length (properties (m_elements reader ! 0))],
              scalar_type = kFloat32, device = kCPU,
              data_ptr = drop (length bytes - 4 * unat (count (m_elements reader ! 0))
                                 * length (properties (m_elements reader ! 0))) bytes\<rparr>,
             map prop_name (properties (m_elements reader ! 0)))"
    by blast
next
  assume a: "valid reader \<and> num_elements reader = 1 \<and> file_type reader = Binary
        \<and> file = Some bytes
        \<and> length bytes
            < 4 * unat (count (m_elements reader ! 0)) * length (properties (m_elements reader ! 0))
        \<and> 4 * unat (count (m_elements reader ! 0)) * length (properties (m_elements reader ! 0))
            < 2 ^ 63"
  then have "read_float_ply reader (Some bytes) uninit path =
        Inr (\<lparr>sizes = [unat (count (m_elements reader ! 0)), length (properties (m_elements reader ! 0))],
              scalar_type = kFloat32, device = kCPU,
              data_ptr = take (4 * unat (count (m_elements reader ! 0))
                                 * length (properties (m_elements reader ! 0))) uninit\<rparr>,
             map prop_name (properties (m_elements reader ! 0)))"
    by (intro read_float_ply_short_file) blast+
  with a show "read_float_ply reader file uninit path =
        Inr (\<lparr>sizes = [unat (count (m_elements reader ! 0)), length (properties (m_elements reader ! 0))],
              scalar_type = kFloat32, device = kCPU,
              data_ptr = take (4 * unat (count (m_elements reader ! 0))
                                 * length (properties (m_elements reader ! 0))) uninit\<rparr>,
             map prop_name (properties (m_elements reader ! 0)))"
    by blast
qed


theorem read_float_ply_trailing_bytes_witness:
  "read_float_ply (PLYReader_open (Some file_xy)) (Some file_xy) (replicate 8 CHR ''?'') ''xy.ply'' =
     Inr (\<lparr>sizes = [1, 2], scalar_type = kFloat32, device = kCPU,
           data_ptr = [CHR 0x00, CHR 0x00, CHR 0x80, CHR 0x3F, CHR 0x00, CHR 0x00, CHR 0x00, CHR 0x40]\<rparr>,
          [''x'', ''y''])
   \<and> read_float_ply (PLYReader_open None) None (replicate 8 CHR ''?'') ''xy.ply'' =
     Inl (runtime_error ''Failed to open specified path: xy.ply'')
   \<and> read_float_ply reader_jagged (Some file_xy) (replicate 8 CHR ''?'') ''xy.ply'' =
     Inl (runtime_error ''Invalid PLY file'')
   \<and> read_float_ply (reader_xy\<lparr>file_type := ASCII\<rparr>) (Some file_xy) (replicate 8 CHR ''?'') ''xy.ply'' =
     Inl (runtime_error ''Unsupported PLY file encoding'')
   \<and> read_float_ply (reader_xy\<lparr>file_type := BinaryBigEndian\<rparr>) (Some file_xy) (replicate 8 CHR ''?'') ''xy.ply'' =
     Inl (runtime_error ''Unsupported PLY file encoding'')
   \<and> read_float_ply reader_30 (Some file_30) (replicate 120 CHR ''?'') ''thirty.ply'' =
     Inr (\<lparr>sizes = [30, 1], scalar_type = kFloat32, device = kCPU,
           data_ptr = replicate 120 CHR ''?''\<rparr>, [''x''])"
proof -
  have 1: "read_float_ply reader_xy (Some file_xy) (replicate 8 CHR ''?'') ''xy.ply'' =
     Inr (\<lparr>sizes = [1, 2], scalar_type = kFloat32, device = kCPU,
           data_ptr = [CHR 0x00, CHR 0x00, CHR 0x80, CHR 0x3F, CHR 0x00, CHR 0x00, CHR 0x00, CHR 0x40]\<rparr>,
          [''x'', ''y''])"
    using read_float_ply_trailing_bytes [of reader_xy "Some file_xy" "replicate 8 CHR ''?''" "''xy.ply''" file_xy]
    by (simp add: reader_xy_def file_xy_def num_elements_def)
  have 2: "read_float_ply (PLYReader_open None) None (replicate 8 CHR ''?'') ''xy.ply'' =
     Inl (runtime_error ''Failed to open specified path: xy.ply'')"
    using read_float_ply_trailing_bytes [of "PLYReader_open None" None "replicate 8 CHR ''?''" "''xy.ply''" "[]"]
    by (simp add: PLYReader_open_def)
  have 3: "read_float_ply reader_jagged (Some file_xy) (replicate 8 CHR ''?'') ''xy.ply'' =
     Inl (runtime_error ''Invalid PLY file'')"
    using read_float_ply_trailing_bytes [of reader_jagged "Some file_xy" "replicate 8 CHR ''?''" "''xy.ply''" file_xy]
    by (simp add: reader_jagged_def num_elements_def)
  have 4: "read_float_ply (reader_xy\<lparr>file_type := ASCII\<rparr>) (Some file_xy) (replicate 8 CHR ''?'') ''xy.ply'' =
     Inl (runtime_error ''Unsupported PLY file encoding'')"
    using read_float_ply_trailing_bytes [of "reader_xy\<lparr>file_type := ASCII\<rparr>" "Some file_xy" "replicate 8 CHR ''?''" "''xy.ply''" file_xy]
    by (simp add: reader_xy_def num_elements_def)
  have 5: "read_float_ply (reader_xy\<lparr>file_type := BinaryBigEndian\<rparr>) (Some file_xy) (replicate 8 CHR ''?'') ''xy.ply'' =
     Inl (runtime_error ''Unsupported PLY file encoding'')"
    using read_float_ply_trailing_bytes [of "reader_xy\<lparr>file_type := BinaryBigEndian\<rparr>" "Some file_xy" "replicate 8 CHR ''?''" "''xy.ply''" file_xy]
    by (simp add: reader_xy_def num_elements_def)
  have 6: "read_float_ply reader_30 (Some file_30) (replicate 120 CHR ''?'') ''thirty.ply'' =
     Inr (\<lparr>sizes = [30, 1], scalar_type = kFloat32, device = kCPU,
           data_ptr = replicate 120 CHR ''?''\<rparr>, [''x''])"
    using read_float_ply_trailing_bytes [of reader_30 "Some file_30" "replicate 120 CHR ''?''" "''thirty.ply''" file_30]
    by (simp add: reader_30_def file_30_def num_elements_def)
  from 1 2 3 4 5 6 show ?thesis by (simp only: open_xy simp_thms)
qed

text \<open>
  The claim as stated fails on a well-formed file whose single element has thirty rows of
  one byte property: the file has 107 bytes, fewer than the 120 the reader asks for, and
  the tensor that comes back holds no byte of the file.
\<close>

theorem read_float_ply_short_file_counterexample:
  "PLYReader_open (Some file_30) = reader_30
   \<and> valid reader_30 \<and> num_elements reader_30 = 1 \<and> file_type reader_30 = Binary
   \<and> length file_30 = 107
   \<and> read_float_ply (PLYReader_open (Some file_30)) (Some file_30) (replicate 120 CHR ''?'') ''thirty.ply'' =
     Inr (\<lparr>sizes = [30, 1], scalar_type = kFloat32, device = kCPU,
           data_ptr = replicate 120 CHR ''?''\<rparr>, [''x''])
   \<and> CHR ''?'' \<notin> set file_30"
proof -
  have v: "valid reader_30" "num_elements reader_30 = 1" "file_type reader_30 = Binary"
    by (simp_all add: reader_30_def num_elements_def)
  have l: "length file_30 = 107"
    by (simp add: file_30_def)
  have s: "length file_30
      < 4 * unat (count (m_elements reader_30 ! 0)) * length (properties (m_elements reader_30 ! 0))"
    "4 * unat (count (m_elements reader_30 ! 0)) * length (properties (m_elements reader_30 ! 0)) < 2 ^ 63"
    by (simp_all add: l reader_30_def)
  have r: "read_float_ply reader_30 (Some file_30) (replicate 120 CHR ''?'') ''thirty.ply'' =
     Inr (\<lparr>sizes = [30, 1], scalar_type = kFloat32, device = kCPU,
           data_ptr = replicate 120 CHR ''?''\<rparr>, [''x''])"
    using read_float_ply_short_file [OF v s, of "replicate 120 CHR ''?''" "''thirty.ply''"]
    by (simp add: reader_30_def)
  have q: "CHR ''?'' \<notin> set file_30"
    by (simp add: file_30_def)
  from v l r q show ?thesis by (simp only: open_30 simp_thms)
qed

subsection \<open>Lists of length one\<close>








subsection \<open>Parsing a written header\<close>































subsection \<open>Loading a written payload\<close>








subsection \<open>Reading a written file\<close>






subsection \<open>Unordered maps built from a list\<close>







subsection \<open>The round trip of a document of scalar columns\<close>





end
